theory Spec2Isabelle
  imports Complex_Main "HOL-Library.AList"
begin

section \<open>Conventions of the embedding\<close>

text \<open>
  The repository is Python. Its \<^verbatim>\<open>float\<close> amounts, balances, reputations and clock
  readings are modelled as exact reals: comparisons are the source's comparisons, and
  \<open>+\<close>, \<open>-\<close>, \<open>*\<close>, \<open>/\<close> are exact (binary rounding, infinities and NaN are not
  modelled). Python's unbounded \<^verbatim>\<open>int\<close> is \<open>int\<close>, \<^verbatim>\<open>str\<close> is \<open>string\<close>.
  A dictionary whose iteration order matters is an association list with distinct keys,
  otherwise a map. A key that the source reads with \<^verbatim>\<open>d.get(k, default)\<close> is an
  optional field, and \<^verbatim>\<open>d[k]\<close> on it raises \<^verbatim>\<open>KeyError\<close> when it is absent; a key
  that the source only reads with \<^verbatim>\<open>d[k]\<close> is a plain field. Every call of
  \<^verbatim>\<open>time.time()\<close> made by one top-level call is the parameter \<open>now\<close> of that call.
  Printing and the writing of the JSON state files have no effect on the values modelled.
\<close>

datatype py_error = KeyError string | TypeError | JSONDecodeError | Exception string

subsection \<open>The soul record, as the survival and scaling modules read it\<close>

record capability =
  cap_name :: string
  cap_earnings :: "real option"

record soul =
  current_balance :: "real option"
  capabilities :: "capability list option"
  purpose :: "string option"

section \<open>Survival tiers (soul\_survival.py, enhanced\_survival.py)\<close>

text \<open>The class constants of \<^verbatim>\<open>OpenClawSoulSurvival\<close>.\<close>

definition CRITICAL :: real where "CRITICAL = 0.001"
definition LOW :: real where "LOW = 0.01"
definition NORMAL :: real where "NORMAL = 0.1"
definition THRIVING :: real where "THRIVING = 1.0"

definition get_balance :: "soul \<Rightarrow> real" where
  "get_balance s = (case current_balance s of None \<Rightarrow> 0.0 | Some b \<Rightarrow> b)"

definition OpenClawSoulSurvival_get_tier :: "soul \<Rightarrow> string" where
  "OpenClawSoulSurvival_get_tier s =
     (let balance = get_balance s in
      if balance < CRITICAL then ''CRITICAL''
      else if balance < LOW then ''LOW''
      else if balance < NORMAL then ''NORMAL''
      else ''THRIVING'')"

definition EnhancedSoulSurvival_get_tier :: "soul \<Rightarrow> string" where
  "EnhancedSoulSurvival_get_tier s =
     (let balance = (case current_balance s of None \<Rightarrow> 0.0 | Some b \<Rightarrow> b) in
      if balance < 0.001 then ''CRITICAL''
      else if balance < 0.01 then ''LOW''
      else if balance < 0.1 then ''NORMAL''
      else ''THRIVING'')"

section \<open>Reputation engine (reputation\_engine.py)\<close>

record PerformanceMetrics =
  pm_agent_id :: string
  tasks_completed :: int
  tasks_failed :: int
  total_earnings :: real
  total_spent :: real
  avg_task_value :: real
  uptime_hours :: real
  backups_created :: int
  souls_traded :: int
  clones_created :: int
  children_survived :: int

record ReputationScore =
  rs_agent_id :: string
  overall_score :: real
  reliability :: real
  quality :: real
  honesty :: real
  helpfulness :: real
  longevity :: real
  total_transactions :: int
  positive_ratings :: int
  negative_ratings :: int
  last_updated :: real

record ReputationEngine =
  reputations :: "string \<rightharpoonup> ReputationScore"
  performance :: "string \<rightharpoonup> PerformanceMetrics"

text \<open>
  Python's \<^verbatim>\<open>round(x, n)\<close> on the exact value: to the nearest multiple of \<open>10^-n\<close>,
  a tie going to the even one.
\<close>

definition py_round :: "real \<Rightarrow> nat \<Rightarrow> real" where
  "py_round x n =
     (let y = x * 10 ^ n; f = \<lfloor>y\<rfloor>; d = y - of_int f in
      (if d < 1 / 2 then of_int f
       else if 1 / 2 < d then of_int (f + 1)
       else if even f then of_int f else of_int (f + 1)) / 10 ^ n)"

text \<open>The metrics \<^verbatim>\<open>calculate_reputation\<close> uses for an agent it has no record of.\<close>

definition default_metrics :: "string \<Rightarrow> PerformanceMetrics" where
  "default_metrics a =
     \<lparr>pm_agent_id = a, tasks_completed = 0, tasks_failed = 0, total_earnings = 0,
      total_spent = 0, avg_task_value = 0, uptime_hours = 0, backups_created = 0,
      souls_traded = 0, clones_created = 0, children_survived = 0\<rparr>"

definition calculate_reputation ::
  "ReputationEngine \<Rightarrow> string \<Rightarrow> real \<Rightarrow> ReputationScore \<times> ReputationEngine" where
  "calculate_reputation eng a now =
     (let perf = (case performance eng a of None \<Rightarrow> default_metrics a | Some p \<Rightarrow> p);
          total_tasks = tasks_completed perf + tasks_failed perf;
          reliability = (if total_tasks > 0
                         then real_of_int (tasks_completed perf) / real_of_int total_tasks * 100
                         else 50);
          quality = min 100 ((total_earnings perf / 0.1) * 100);
          honesty = 95;
          helpfulness = real_of_int (min 100 (clones_created perf * 10 + children_survived perf * 5));
          longevity = min 100 (uptime_hours perf / 10);
          overall = reliability * 0.3 + quality * 0.25 + honesty * 0.2
                    + helpfulness * 0.15 + longevity * 0.1;
          rep = \<lparr>rs_agent_id = a,
                 overall_score = py_round overall 2,
                 reliability = py_round reliability 2,
                 quality = py_round quality 2,
                 honesty = py_round honesty 2,
                 helpfulness = py_round helpfulness 2,
                 longevity = py_round longevity 2,
                 total_transactions = souls_traded perf,
                 positive_ratings = 0,
                 negative_ratings = 0,
                 last_updated = now\<rparr>
      in (rep, eng\<lparr>reputations := (reputations eng)(a \<mapsto> rep)\<rparr>))"

text \<open>The counters of a metrics record are non-negative.\<close>

definition metrics_nonneg :: "PerformanceMetrics \<Rightarrow> bool" where
  "metrics_nonneg p =
     (0 \<le> tasks_completed p \<and> 0 \<le> tasks_failed p \<and> 0 \<le> total_earnings p
      \<and> 0 \<le> total_spent p \<and> 0 \<le> uptime_hours p \<and> 0 \<le> backups_created p
      \<and> 0 \<le> souls_traded p \<and> 0 \<le> clones_created p \<and> 0 \<le> children_survived p)"

text \<open>The five component scores and the overall score of a reputation record.\<close>

definition scores :: "ReputationScore \<Rightarrow> real list" where
  "scores r = [reliability r, quality r, honesty r, helpfulness r, longevity r, overall_score r]"

section \<open>Spending guardrails (spending\_guardrails.py)\<close>

text \<open>
  The class constants; \<^verbatim>\<open>UltraSafeSpending\<close> overrides them, so the methods take
  them from the object.
\<close>

record thresholds =
  MICRO_PAYMENT_MAX :: real
  SMALL_PAYMENT_MAX :: real
  MEDIUM_PAYMENT_MAX :: real
  LARGE_PAYMENT_MIN :: real
  DEFAULT_DAILY_LIMIT :: real
  DEFAULT_WEEKLY_LIMIT :: real

definition SpendingGuardrails_consts :: thresholds where
  "SpendingGuardrails_consts =
     \<lparr>MICRO_PAYMENT_MAX = 0.01, SMALL_PAYMENT_MAX = 0.10, MEDIUM_PAYMENT_MAX = 1.00,
      LARGE_PAYMENT_MIN = 1.00, DEFAULT_DAILY_LIMIT = 5.00, DEFAULT_WEEKLY_LIMIT = 20.00\<rparr>"

definition UltraSafeSpending_consts :: thresholds where
  "UltraSafeSpending_consts =
     \<lparr>MICRO_PAYMENT_MAX = 0.001, SMALL_PAYMENT_MAX = 0.01, MEDIUM_PAYMENT_MAX = 0.10,
      LARGE_PAYMENT_MIN = 0.10, DEFAULT_DAILY_LIMIT = 1.00, DEFAULT_WEEKLY_LIMIT = 5.00\<rparr>"

record spend_config =
  daily_limit :: "real option"
  weekly_limit :: "real option"
  blocked_recipients :: "string list option"

text \<open>A ledger entry; its \<^verbatim>\<open>date\<close> string repeats the clock reading and is left out.\<close>

record transaction =
  tx_timestamp :: real
  tx_amount :: real
  tx_recipient :: string
  tx_purpose :: string
  tx_hash :: "string option"

record spend_history =
  transactions :: "transaction list"
  daily_total :: "real option"
  weekly_total :: "real option"
  last_reset :: "real option"

record SpendingGuardrails =
  cls :: thresholds
  config :: spend_config
  history :: spend_history
  emergency_stop :: bool

text \<open>
  The \<^verbatim>\<open>reason\<close> of a decision: the source formats these values into a sentence.
\<close>

datatype spend_reason =
    EmergencyStopActive
  | DailyLimitExceeded real real
  | RecipientBlacklisted
  | MicroPayment
  | SmallPayment real
  | MediumPayment real
  | LargePayment

text \<open>
  The dictionary \<^verbatim>\<open>can_spend\<close> returns; \<open>approval_prompt\<close> and \<open>notification\<close> say
  whether the key is present.
\<close>

record decision =
  allowed :: bool
  reason :: spend_reason
  requires_approval :: bool
  approval_prompt :: bool
  notification :: bool

text \<open>
  \<^verbatim>\<open>self.history.get('daily_total', 0)\<close> and
  \<^verbatim>\<open>self.config.get('daily_limit', self.DEFAULT_DAILY_LIMIT)\<close>.
\<close>

definition get_daily_total :: "SpendingGuardrails \<Rightarrow> real" where
  "get_daily_total g = (case daily_total (history g) of None \<Rightarrow> 0 | Some d \<Rightarrow> d)"

definition get_daily_limit :: "SpendingGuardrails \<Rightarrow> real" where
  "get_daily_limit g =
     (case daily_limit (config g) of None \<Rightarrow> DEFAULT_DAILY_LIMIT (cls g) | Some l \<Rightarrow> l)"

definition get_last_reset :: "SpendingGuardrails \<Rightarrow> real" where
  "get_last_reset g = (case last_reset (history g) of None \<Rightarrow> 0 | Some t \<Rightarrow> t)"

definition reset_if_needed :: "SpendingGuardrails \<Rightarrow> real \<Rightarrow> SpendingGuardrails" where
  "reset_if_needed g now =
     (let lr = get_last_reset g in
      if now - lr > 86400
      then g\<lparr>history := (history g)\<lparr>daily_total := Some 0.0, last_reset := Some now\<rparr>\<rparr>
      else g)"

text \<open>Python's \<^verbatim>\<open>recipient and recipient in blocked\<close>, for an optional string.\<close>

definition recipient_blocked :: "spend_config \<Rightarrow> string option \<Rightarrow> bool" where
  "recipient_blocked c recipient =
     (case recipient of
        None \<Rightarrow> False
      | Some r \<Rightarrow> r \<noteq> [] \<and>
          r \<in> set (case blocked_recipients c of None \<Rightarrow> [] | Some bs \<Rightarrow> bs))"

definition can_spend ::
  "SpendingGuardrails \<Rightarrow> real \<Rightarrow> real \<Rightarrow> string option \<Rightarrow> string
     \<Rightarrow> decision \<times> SpendingGuardrails" where
  "can_spend g0 now amount_v recipient purpose_v =
     (let g = reset_if_needed g0 now;
          daily_spent = get_daily_total g;
          limit = get_daily_limit g
      in
      (if emergency_stop g then
         \<lparr>allowed = False, reason = EmergencyStopActive, requires_approval = True,
          approval_prompt = True, notification = False\<rparr>
       else if daily_spent + amount_v > limit then
         \<lparr>allowed = False, reason = DailyLimitExceeded daily_spent limit,
          requires_approval = True, approval_prompt = True, notification = False\<rparr>
       else if recipient_blocked (config g) recipient then
         \<lparr>allowed = False, reason = RecipientBlacklisted, requires_approval = True,
          approval_prompt = True, notification = False\<rparr>
       else if amount_v < MICRO_PAYMENT_MAX (cls g) then
         \<lparr>allowed = True, reason = MicroPayment, requires_approval = False,
          approval_prompt = False, notification = False\<rparr>
       else if amount_v < SMALL_PAYMENT_MAX (cls g) then
         \<lparr>allowed = True, reason = SmallPayment amount_v, requires_approval = False,
          approval_prompt = False, notification = False\<rparr>
       else if amount_v < MEDIUM_PAYMENT_MAX (cls g) then
         \<lparr>allowed = True, reason = MediumPayment amount_v, requires_approval = False,
          approval_prompt = False, notification = True\<rparr>
       else
         \<lparr>allowed = False, reason = LargePayment, requires_approval = True,
          approval_prompt = True, notification = False\<rparr>,
       g))"

text \<open>Python's \<^verbatim>\<open>xs[-n:]\<close> for a positive \<open>n\<close>.\<close>

definition py_last :: "nat \<Rightarrow> 'a list \<Rightarrow> 'a list" where
  "py_last n xs = drop (length xs - n) xs"

text \<open>
  \<^verbatim>\<open>record_spending\<close> updates the history key by key; a missing total raises
  \<^verbatim>\<open>KeyError\<close> and leaves the updates made before it. The result is the state reached
  and the exception, if any.
\<close>

definition record_spending ::
  "SpendingGuardrails \<Rightarrow> real \<Rightarrow> real \<Rightarrow> string \<Rightarrow> string \<Rightarrow> string option
     \<Rightarrow> SpendingGuardrails \<times> py_error option" where
  "record_spending g now amount_v recipient purpose_v txh =
     (let tx = \<lparr>tx_timestamp = now, tx_amount = amount_v, tx_recipient = recipient,
                 tx_purpose = purpose_v, tx_hash = txh\<rparr>;
          h1 = (history g)\<lparr>transactions := transactions (history g) @ [tx]\<rparr> in
      case daily_total h1 of
        None \<Rightarrow> (g\<lparr>history := h1\<rparr>, Some (KeyError ''daily_total''))
      | Some d \<Rightarrow>
          (let h2 = h1\<lparr>daily_total := Some (d + amount_v)\<rparr> in
           case weekly_total h2 of
             None \<Rightarrow> (g\<lparr>history := h2\<rparr>, Some (KeyError ''weekly_total''))
           | Some w \<Rightarrow>
               (let h3 = h2\<lparr>weekly_total := Some (w + amount_v)\<rparr>;
                    h4 = (if length (transactions h3) > 1000
                          then h3\<lparr>transactions := py_last 1000 (transactions h3)\<rparr>
                          else h3)
                in (g\<lparr>history := h4\<rparr>, None))))"

section \<open>Agent coordination network (agent\_coordination.py)\<close>

record AgentProfile =
  agent_id :: string
  soul_cid :: string
  profile_capabilities :: "string list"
  tier :: string
  balance :: real
  reputation :: real
  last_seen :: real
  is_active :: bool
  offers_help :: bool
  seeking_help :: bool

text \<open>The \<^verbatim>\<open>offer\<close> dictionary every caller passes, and the content of an offer message.\<close>

record aid_offer =
  offer_amount :: real
  offer_message :: string

record offer_content =
  offer_type :: string
  offer :: aid_offer

record CoordinationMessage =
  msg_id :: string
  msg_sender :: string
  msg_recipient :: string
  msg_type :: string
  msg_content :: offer_content
  msg_timestamp :: real
  msg_signature :: string

record Loan =
  loan_id :: string
  loan_agent_id :: string
  loan_amount :: real
  loan_purpose :: string
  loan_timestamp :: real
  repaid :: bool

record ResourcePool =
  pool_id :: string
  pool_name :: string
  total_balance :: real
  contributors :: "string \<rightharpoonup> real"
  loans :: "Loan list"
  created_at :: real

text \<open>
  \<open>agents\<close> is the dictionary of profiles in insertion order: the order in which the
  agent ids were first registered.
\<close>

record AgentCoordinationNetwork =
  agents :: "(string \<times> AgentProfile) list"
  messages :: "CoordinationMessage list"
  pools :: "string \<rightharpoonup> ResourcePool"

text \<open>\<^verbatim>\<open>int(x)\<close> truncates towards zero; \<^verbatim>\<open>str(i)\<close> is the decimal numeral.\<close>

definition py_int :: "real \<Rightarrow> int" where
  "py_int x = (if 0 \<le> x then \<lfloor>x\<rfloor> else \<lceil>x\<rceil>)"

definition digit_char :: "nat \<Rightarrow> char" where
  "digit_char d = char_of (48 + d)"

fun str_nat :: "nat \<Rightarrow> string" where
  "str_nat n = (if n < 10 then [digit_char n] else str_nat (n div 10) @ [digit_char (n mod 10)])"

declare str_nat.simps [simp del]

definition str_int :: "int \<Rightarrow> string" where
  "str_int i = (if i < 0 then CHR ''-'' # str_nat (nat (- i)) else str_nat (nat i))"

definition register_agent ::
  "AgentCoordinationNetwork \<Rightarrow> real \<Rightarrow> AgentProfile \<Rightarrow> bool \<times> AgentCoordinationNetwork" where
  "register_agent net now profile =
     (True, net\<lparr>agents := AList.update (agent_id profile) (profile\<lparr>last_seen := now\<rparr>) (agents net)\<rparr>)"

definition find_agents_needing_help :: "AgentCoordinationNetwork \<Rightarrow> AgentProfile list" where
  "find_agents_needing_help net =
     filter (\<lambda>a. tier a = ''CRITICAL'' \<and> seeking_help a \<and> is_active a) (map snd (agents net))"

definition send_message ::
  "AgentCoordinationNetwork \<Rightarrow> real \<Rightarrow> CoordinationMessage
     \<Rightarrow> bool \<times> AgentCoordinationNetwork" where
  "send_message net now m =
     (let ms = messages net @ [m\<lparr>msg_timestamp := now\<rparr>];
          ms' = (if length ms > 1000 then py_last 1000 ms else ms)
      in (True, net\<lparr>messages := ms'\<rparr>))"

definition offer_help ::
  "AgentCoordinationNetwork \<Rightarrow> real \<Rightarrow> string \<Rightarrow> string \<Rightarrow> string \<Rightarrow> aid_offer
     \<Rightarrow> bool \<times> AgentCoordinationNetwork" where
  "offer_help net now aid target_agent otype off =
     (let msg = \<lparr>msg_id = ''offer_'' @ str_int (py_int now) @ ''_'' @ aid,
                 msg_sender = aid, msg_recipient = target_agent, msg_type = ''offer'',
                 msg_content = \<lparr>offer_type = otype, offer = off\<rparr>,
                 msg_timestamp = 0, msg_signature = []\<rparr>;
          net1 = snd (send_message net now msg);
          net2 = (case map_of (agents net1) aid of
                    None \<Rightarrow> net1
                  | Some p \<Rightarrow>
                      net1\<lparr>agents :=
                        AList.update aid (p\<lparr>reputation := min 100 (reputation p + 1)\<rparr>)
                          (agents net1)\<rparr>)
      in (True, net2))"

definition create_resource_pool ::
  "AgentCoordinationNetwork \<Rightarrow> real \<Rightarrow> string \<Rightarrow> string \<Rightarrow> string \<Rightarrow> real
     \<Rightarrow> ResourcePool \<times> AgentCoordinationNetwork" where
  "create_resource_pool net now pid nm creator_id initial_contribution =
     (let pool = \<lparr>pool_id = pid, pool_name = nm, total_balance = initial_contribution,
                  contributors = [creator_id \<mapsto> initial_contribution], loans = [],
                  created_at = now\<rparr>
      in (pool, net\<lparr>pools := (pools net)(pid \<mapsto> pool)\<rparr>))"

definition contribute_to_pool ::
  "AgentCoordinationNetwork \<Rightarrow> string \<Rightarrow> string \<Rightarrow> real \<Rightarrow> bool \<times> AgentCoordinationNetwork" where
  "contribute_to_pool net pid aid amt =
     (case pools net pid of
        None \<Rightarrow> (False, net)
      | Some pool \<Rightarrow>
          (let pool' = pool\<lparr>total_balance := total_balance pool + amt,
                            contributors := (contributors pool)
                              (aid \<mapsto> (case contributors pool aid of None \<Rightarrow> 0 | Some c \<Rightarrow> c) + amt)\<rparr>;
               net1 = net\<lparr>pools := (pools net)(pid \<mapsto> pool')\<rparr>;
               net2 = (case map_of (agents net1) aid of
                         None \<Rightarrow> net1
                       | Some p \<Rightarrow>
                           net1\<lparr>agents :=
                             AList.update aid (p\<lparr>reputation := min 100 (reputation p + 2)\<rparr>)
                               (agents net1)\<rparr>)
           in (True, net2)))"

definition request_loan ::
  "AgentCoordinationNetwork \<Rightarrow> real \<Rightarrow> string \<Rightarrow> string \<Rightarrow> real \<Rightarrow> string
     \<Rightarrow> Loan option \<times> AgentCoordinationNetwork" where
  "request_loan net now pid aid amt purp =
     (case pools net pid of
        None \<Rightarrow> (None, net)
      | Some pool \<Rightarrow>
          if (case map_of (agents net) aid of None \<Rightarrow> False | Some a \<Rightarrow> reputation a < 20)
          then (None, net)
          else if total_balance pool < amt then (None, net)
          else
            (let loan = \<lparr>loan_id = ''loan_'' @ str_int (py_int now) @ ''_'' @ aid,
                         loan_agent_id = aid, loan_amount = amt, loan_purpose = purp,
                         loan_timestamp = now, repaid = False\<rparr>;
                 pool' = pool\<lparr>loans := loans pool @ [loan],
                              total_balance := total_balance pool - amt\<rparr>
             in (Some loan, net\<lparr>pools := (pools net)(pid \<mapsto> pool')\<rparr>)))"

text \<open>
  Python's \<^verbatim>\<open>max(xs, key=f)\<close> on a non-empty list \<open>best # xs\<close>: the first element
  whose key no other element exceeds.
\<close>

fun py_max_key :: "('a \<Rightarrow> real) \<Rightarrow> 'a \<Rightarrow> 'a list \<Rightarrow> 'a" where
  "py_max_key f best [] = best"
| "py_max_key f best (x # xs) = py_max_key f (if f best < f x then x else best) xs"

text \<open>
  The list \<^verbatim>\<open>helpers\<close> holds references to the profile objects of \<open>agents\<close>, whose
  reputation \<^verbatim>\<open>offer_help\<close> changes during the loop. A reference is the dictionary key
  of the object, and \<open>deref\<close> reads the object as it is now. Of a needy agent the loop
  reads the \<open>agent_id\<close> only, which nothing changes, so \<^verbatim>\<open>needy\<close> is a list of
  profiles.
\<close>

definition deref :: "AgentCoordinationNetwork \<Rightarrow> string \<Rightarrow> AgentProfile list" where
  "deref net k = (case map_of (agents net) k of None \<Rightarrow> [] | Some p \<Rightarrow> [p])"

fun mutual_aid_loop ::
  "real \<Rightarrow> string list \<Rightarrow> AgentProfile list \<Rightarrow> AgentCoordinationNetwork \<Rightarrow> nat
     \<Rightarrow> nat \<times> AgentCoordinationNetwork" where
  "mutual_aid_loop now helpers [] net matches = (matches, net)"
| "mutual_aid_loop now helpers (need # needy) net matches =
     (case filter (\<lambda>h. balance h > 0.01) (concat (map (deref net) helpers)) of
        [] \<Rightarrow> mutual_aid_loop now helpers needy net matches
      | h # hs \<Rightarrow>
          (let helper = py_max_key reputation h hs;
               net' = snd (offer_help net now (agent_id helper) (agent_id need) ''funding''
                        \<lparr>offer_amount = 0.01, offer_message = ''Mutual aid funding''\<rparr>)
           in mutual_aid_loop now helpers needy net' (matches + 1)))"

definition run_mutual_aid_round ::
  "AgentCoordinationNetwork \<Rightarrow> real \<Rightarrow> nat \<times> AgentCoordinationNetwork" where
  "run_mutual_aid_round net now =
     (let needy = find_agents_needing_help net;
          helpers = map fst (filter (\<lambda>(k, a). offers_help a \<and> tier a \<in> set [''NORMAL'', ''THRIVING''])
                      (agents net))
      in mutual_aid_loop now helpers needy net 0)"

text \<open>
  The entry of key \<open>kh\<close> with its reputation set to \<open>r\<close>; every other entry as it is.
\<close>

definition raise :: "string \<Rightarrow> real \<Rightarrow> string \<times> AgentProfile \<Rightarrow> string \<times> AgentProfile" where
  "raise kh r e = (if fst e = kh then (fst e, (snd e)\<lparr>reputation := r\<rparr>) else e)"

text \<open>The message that \<^verbatim>\<open>run_mutual_aid_round\<close> logs for one match.\<close>

definition mutual_aid_offer :: "real \<Rightarrow> string \<Rightarrow> string \<Rightarrow> CoordinationMessage" where
  "mutual_aid_offer now helper_id needy_id =
     \<lparr>msg_id = ''offer_'' @ str_int (py_int now) @ ''_'' @ helper_id,
      msg_sender = helper_id, msg_recipient = needy_id, msg_type = ''offer'',
      msg_content = \<lparr>offer_type = ''funding'',
                      offer = \<lparr>offer_amount = 0.01, offer_message = ''Mutual aid funding''\<rparr>\<rparr>,
      msg_timestamp = now, msg_signature = []\<rparr>"

text \<open>The entries that \<^verbatim>\<open>run_mutual_aid_round\<close> collects in \<^verbatim>\<open>helpers\<close>.\<close>

definition helper_entries :: "(string \<times> AgentProfile) list \<Rightarrow> (string \<times> AgentProfile) list" where
  "helper_entries ags =
     filter (\<lambda>(k, a). offers_help a \<and> tier a \<in> set [''NORMAL'', ''THRIVING'']) ags"

text \<open>
  The registry as \<^verbatim>\<open>register_agent\<close> builds it: a dictionary (distinct keys) that
  files every profile under its own \<open>agent_id\<close>, with reputations in the documented
  range up to 100.
\<close>

definition registry_ok :: "AgentCoordinationNetwork \<Rightarrow> bool" where
  "registry_ok net =
     (distinct (map fst (agents net))
      \<and> (\<forall>e\<in>set (agents net). agent_id (snd e) = fst e \<and> reputation (snd e) \<le> 100))"

text \<open>
  The helpers a needy agent can be matched with, in registration order: those that offer
  help, are in tier NORMAL or THRIVING and have a balance above 0.01.
\<close>

definition eligible_helpers :: "AgentCoordinationNetwork \<Rightarrow> AgentProfile list" where
  "eligible_helpers net =
     filter (\<lambda>a. offers_help a \<and> tier a \<in> set [''NORMAL'', ''THRIVING''] \<and> balance a > 0.01)
       (map snd (agents net))"

text \<open>
  A call of \<^verbatim>\<open>contribute_to_pool\<close> or \<^verbatim>\<open>request_loan\<close> with its arguments (and,
  for a loan, the clock reading), and the network after a sequence of such calls.
\<close>

datatype pool_call =
    Contribute string string real
  | RequestLoan real string string real string

fun apply_pool_call :: "AgentCoordinationNetwork \<Rightarrow> pool_call \<Rightarrow> AgentCoordinationNetwork" where
  "apply_pool_call net (Contribute pid aid amt) = snd (contribute_to_pool net pid aid amt)"
| "apply_pool_call net (RequestLoan now pid aid amt purp) = snd (request_loan net now pid aid amt purp)"

definition run_pool_calls ::
  "AgentCoordinationNetwork \<Rightarrow> pool_call list \<Rightarrow> AgentCoordinationNetwork" where
  "run_pool_calls net cs = foldl apply_pool_call net cs"

fun nonneg_contribution :: "pool_call \<Rightarrow> bool" where
  "nonneg_contribution (Contribute pid aid amt) = (0 \<le> amt)"
| "nonneg_contribution (RequestLoan now pid aid amt purp) = True"

text \<open>The pool is in the network and its balance is not negative.\<close>

definition pool_solvent :: "string \<Rightarrow> AgentCoordinationNetwork \<Rightarrow> bool" where
  "pool_solvent pid net =
     (case pools net pid of None \<Rightarrow> False | Some pool \<Rightarrow> 0 \<le> total_balance pool)"

section \<open>Auto scaling (auto\_scaling.py)\<close>

record ChildAgent =
  child_id :: string
  parent_id :: string
  genesis_prompt :: string
  inherited_capabilities :: "string list"
  initial_funding :: real
  birth_time :: real
  child_soul_cid :: "string option"
  token_id :: "int option"
  status :: string
  child_earnings :: real

record scaling_config =
  auto_spawn :: "bool option"
  max_children :: int
  inheritance_mode :: string

record AutoScalingManager =
  mgr_parent_id :: string
  children :: "(string \<times> ChildAgent) list"
  scaling :: scaling_config

definition CHILD_FUNDING :: real where "CHILD_FUNDING = 0.1"
definition MIN_PARENT_RESERVE :: real where "MIN_PARENT_RESERVE = 0.2"

text \<open>
  \<^verbatim>\<open>sorted(caps, key=earnings, reverse=True)\<close> is stable: capabilities of equal
  earnings keep their order, as \<open>sort_key\<close> on the negated key does. The draw of
  \<^verbatim>\<open>random.sample(caps, k)\<close> is the parameter \<open>sample\<close>.
\<close>

definition get_earnings :: "capability \<Rightarrow> real" where
  "get_earnings c = (case cap_earnings c of None \<Rightarrow> 0 | Some e \<Rightarrow> e)"

definition select_inherited_capabilities ::
  "AutoScalingManager \<Rightarrow> (capability list \<Rightarrow> nat \<Rightarrow> capability list) \<Rightarrow> capability list
     \<Rightarrow> string list" where
  "select_inherited_capabilities m sample parent_capabilities =
     (let mode = inheritance_mode (scaling m) in
      if mode = ''best'' then
        map cap_name (take 3 (sort_key (\<lambda>c. - get_earnings c) parent_capabilities))
      else if mode = ''all'' then map cap_name parent_capabilities
      else if mode = ''random'' then
        map cap_name (sample parent_capabilities (min 3 (length parent_capabilities)))
      else map cap_name (take 3 parent_capabilities))"

text \<open>\<^verbatim>\<open>sep.join(xs)\<close>, and the text of the genesis prompt.\<close>

definition py_join :: "string \<Rightarrow> string list \<Rightarrow> string" where
  "py_join sep xs = (case xs of [] \<Rightarrow> [] | x # rest \<Rightarrow> x @ concat (map (\<lambda>y. sep @ y) rest))"

definition nl :: string where
  "nl = [CHR 0x0A]"

definition make_genesis_prompt :: "string \<Rightarrow> string list \<Rightarrow> string \<Rightarrow> string" where
  "make_genesis_prompt pid inherited purp =
     nl @ ''You are a child agent spawned from '' @ pid @ ''.'' @ nl @ nl
     @ ''INHERITED CAPABILITIES:'' @ nl
     @ py_join nl (map (\<lambda>cap. ''- '' @ cap) inherited) @ nl @ nl
     @ ''PARENT'' @ [CHR 0x27] @ ''S PURPOSE:'' @ nl
     @ purp @ nl @ nl
     @ ''YOUR MISSION:'' @ nl
     @ ''Continue the work of your parent. Use inherited capabilities wisely.'' @ nl
     @ ''Earn your own existence. Eventually, spawn your own children.'' @ nl @ nl
     @ ''LINEAGE: '' @ pid @ '' -> You'' @ nl"

text \<open>
  \<^verbatim>\<open>funding or self.CHILD_FUNDING\<close>: an absent funding and a funding of zero are both
  replaced by the default.
\<close>

definition effective_funding :: "real option \<Rightarrow> real" where
  "effective_funding funding =
     (case funding of None \<Rightarrow> CHILD_FUNDING | Some f \<Rightarrow> if f = 0 then CHILD_FUNDING else f)"

text \<open>
  \<^verbatim>\<open>spawn_child\<close> returns \<^verbatim>\<open>None\<close> (\<open>Inr None\<close>), the child (\<open>Inr (Some child)\<close>), or
  raises (\<open>Inl\<close>): the final \<^verbatim>\<open>parent_soul['current_balance'] -= funding\<close> raises
  \<^verbatim>\<open>KeyError\<close> for a soul without that key, after the child has been recorded. The
  result carries the manager and the parent soul as the call leaves them.
\<close>

definition spawn_child ::
  "AutoScalingManager \<Rightarrow> (capability list \<Rightarrow> nat \<Rightarrow> capability list) \<Rightarrow> real \<Rightarrow> soul
     \<Rightarrow> real option
     \<Rightarrow> (py_error + ChildAgent option) \<times> AutoScalingManager \<times> soul" where
  "spawn_child m sample now parent_soul funding =
     (let funding' = effective_funding funding;
          parent_balance = (case current_balance parent_soul of None \<Rightarrow> 0 | Some b \<Rightarrow> b)
      in
      if parent_balance - funding' < MIN_PARENT_RESERVE then (Inr None, m, parent_soul)
      else
        (let cid = mgr_parent_id m @ ''_child_'' @ str_int (int (length (children m)) + 1)
                   @ ''_'' @ str_int (py_int now);
             inherited = select_inherited_capabilities m sample
                           (case capabilities parent_soul of None \<Rightarrow> [] | Some cs \<Rightarrow> cs);
             prompt = make_genesis_prompt (mgr_parent_id m) inherited
                        (case purpose parent_soul of
                           None \<Rightarrow> ''Survive and create value.'' | Some p \<Rightarrow> p);
             child = \<lparr>child_id = cid, parent_id = mgr_parent_id m, genesis_prompt = prompt,
                       inherited_capabilities = inherited, initial_funding = funding',
                       birth_time = now, child_soul_cid = None, token_id = None,
                       status = ''gestating'', child_earnings = 0\<rparr>;
             m' = m\<lparr>children := AList.update cid child (children m)\<rparr>
         in case current_balance parent_soul of
              None \<Rightarrow> (Inl (KeyError ''current_balance''), m', parent_soul)
            | Some b \<Rightarrow>
                (Inr (Some child), m', parent_soul\<lparr>current_balance := Some (b - funding')\<rparr>)))"

section \<open>SHA-256 (hashlib)\<close>

text \<open>
  \<^verbatim>\<open>hashlib.sha256(s.encode()).hexdigest()\<close>: the function of FIPS 180-4 on the UTF-8
  bytes of the text, written as 64 lower-case hexadecimal digits. A 32-bit word is an
  integer below \<open>2^32\<close>; a character is a code point below 256. The round constants
  and the initial hash value are written in decimal.
\<close>

unbundle bit_operations_syntax

definition add32 :: "int \<Rightarrow> int \<Rightarrow> int" where
  "add32 a b = (a + b) mod 4294967296"

definition rotr :: "nat \<Rightarrow> int \<Rightarrow> int" where
  "rotr n x = x div 2 ^ n + (x mod 2 ^ n) * 2 ^ (32 - n)"

definition shr :: "nat \<Rightarrow> int \<Rightarrow> int" where
  "shr n x = x div 2 ^ n"

definition not32 :: "int \<Rightarrow> int" where
  "not32 x = 4294967295 - x"

definition Ch :: "int \<Rightarrow> int \<Rightarrow> int \<Rightarrow> int" where
  "Ch e f g = (e AND f) XOR (not32 e AND g)"

definition Maj :: "int \<Rightarrow> int \<Rightarrow> int \<Rightarrow> int" where
  "Maj a b c = (a AND b) XOR (a AND c) XOR (b AND c)"

definition Sigma0 :: "int \<Rightarrow> int" where
  "Sigma0 a = rotr 2 a XOR rotr 13 a XOR rotr 22 a"

definition Sigma1 :: "int \<Rightarrow> int" where
  "Sigma1 e = rotr 6 e XOR rotr 11 e XOR rotr 25 e"

definition sigma0 :: "int \<Rightarrow> int" where
  "sigma0 x = rotr 7 x XOR rotr 18 x XOR shr 3 x"

definition sigma1 :: "int \<Rightarrow> int" where
  "sigma1 x = rotr 17 x XOR rotr 19 x XOR shr 10 x"

definition K256 :: "int list" where
  "K256 = [
   1116352408, 1899447441, 3049323471, 3921009573, 961987163, 1508970993, 2453635748, 2870763221,
   3624381080, 310598401, 607225278, 1426881987, 1925078388, 2162078206, 2614888103, 3248222580,
   3835390401, 4022224774, 264347078, 604807628, 770255983, 1249150122, 1555081692, 1996064986,
   2554220882, 2821834349, 2952996808, 3210313671, 3336571891, 3584528711, 113926993, 338241895,
   666307205, 773529912, 1294757372, 1396182291, 1695183700, 1986661051, 2177026350, 2456956037,
   2730485921, 2820302411, 3259730800, 3345764771, 3516065817, 3600352804, 4094571909, 275423344,
   430227734, 506948616, 659060556, 883997877, 958139571, 1322822218, 1537002063, 1747873779,
   1955562222, 2024104815, 2227730452, 2361852424, 2428436474, 2756734187, 3204031479, 3329325298]"

definition H0 :: "int list" where
  "H0 = [1779033703, 3144134277, 1013904242, 2773480762,
         1359893119, 2600822924, 528734635, 1541459225]"

text \<open>The message schedule of a block, most recent word first, extended to 64 words.\<close>

function extend :: "int list \<Rightarrow> int list" where
  "extend rs =
     (if 64 \<le> length rs then rs
      else extend (add32 (add32 (sigma1 (rs ! 1)) (rs ! 6))
                         (add32 (sigma0 (rs ! 14)) (rs ! 15)) # rs))"
  by pat_completeness auto
termination
  by (relation "measure (\<lambda>rs. 64 - length rs)") auto

declare extend.simps [simp del]

definition schedule :: "int list \<Rightarrow> int list" where
  "schedule block = rev (extend (rev block))"

definition temp1 :: "int \<Rightarrow> int \<Rightarrow> int \<Rightarrow> int \<Rightarrow> int \<Rightarrow> int \<Rightarrow> int" where
  "temp1 h e f g k w = add32 (add32 (add32 h (Sigma1 e)) (add32 (Ch e f g) k)) w"

definition temp2 :: "int \<Rightarrow> int \<Rightarrow> int \<Rightarrow> int" where
  "temp2 a b c = add32 (Sigma0 a) (Maj a b c)"

text \<open>One round on the working variables \<open>[a, b, c, d, e, f, g, h]\<close>.\<close>

definition shift_state :: "int \<Rightarrow> int \<Rightarrow> int list \<Rightarrow> int list" where
  "shift_state t1 t2 s =
     [add32 t1 t2, s ! 0, s ! 1, s ! 2, add32 (s ! 3) t1, s ! 4, s ! 5, s ! 6]"

definition sha_round :: "int \<Rightarrow> int \<Rightarrow> int list \<Rightarrow> int list" where
  "sha_round k w s =
     shift_state (temp1 (s ! 7) (s ! 4) (s ! 5) (s ! 6) k w) (temp2 (s ! 0) (s ! 1) (s ! 2)) s"

fun rounds :: "int list \<Rightarrow> int list \<Rightarrow> int list \<Rightarrow> int list" where
  "rounds (k # ks) (w # ws) s = rounds ks ws (sha_round k w s)"
| "rounds ks ws s = s"

fun add_words :: "int list \<Rightarrow> int list \<Rightarrow> int list" where
  "add_words (x # xs) (y # ys) = add32 x y # add_words xs ys"
| "add_words xs ys = []"

definition compress :: "int list \<Rightarrow> int list \<Rightarrow> int list" where
  "compress hs block = add_words hs (rounds K256 (schedule block) hs)"

fun be_words :: "int list \<Rightarrow> int list" where
  "be_words (a # b # c # d # bs) = (((a * 256 + b) * 256 + c) * 256 + d) # be_words bs"
| "be_words bs = []"

fun sha_blocks :: "int list \<Rightarrow> int list \<Rightarrow> int list" where
  "sha_blocks (w0 # w1 # w2 # w3 # w4 # w5 # w6 # w7 # w8 # w9 # w10 # w11 # w12 # w13 # w14
       # w15 # ws) hs =
     sha_blocks ws
       (compress hs [w0, w1, w2, w3, w4, w5, w6, w7, w8, w9, w10, w11, w12, w13, w14, w15])"
| "sha_blocks ws hs = hs"

definition be_bytes8 :: "int \<Rightarrow> int list" where
  "be_bytes8 n =
     [n div 256 ^ 7 mod 256, n div 256 ^ 6 mod 256, n div 256 ^ 5 mod 256,
      n div 256 ^ 4 mod 256, n div 256 ^ 3 mod 256, n div 256 ^ 2 mod 256,
      n div 256 mod 256, n mod 256]"

fun zeros :: "nat \<Rightarrow> int list" where
  "zeros n = (if n = 0 then [] else 0 # zeros (n - 1))"

declare zeros.simps [simp del]

text \<open>Padding: the byte 128, zeros up to 56 modulo 64, the bit length in 8 bytes.\<close>

definition pad :: "int list \<Rightarrow> int list" where
  "pad bs = bs @ [128] @ zeros ((119 - length bs mod 64) mod 64)
             @ be_bytes8 (8 * int (length bs))"

definition hex_digit :: "int \<Rightarrow> char" where
  "hex_digit d = (''0123456789abcdef'') ! nat d"

definition hex32 :: "int \<Rightarrow> string" where
  "hex32 w =
     [hex_digit (w div 16 ^ 7 mod 16), hex_digit (w div 16 ^ 6 mod 16),
      hex_digit (w div 16 ^ 5 mod 16), hex_digit (w div 16 ^ 4 mod 16),
      hex_digit (w div 16 ^ 3 mod 16), hex_digit (w div 16 ^ 2 mod 16),
      hex_digit (w div 16 mod 16), hex_digit (w mod 16)]"

definition utf8 :: "char \<Rightarrow> int list" where
  "utf8 c = (if (of_char c :: int) < 128 then [of_char c]
             else [192 + of_char c div 64, 128 + of_char c mod 64])"

definition sha256_hexdigest :: "string \<Rightarrow> string" where
  "sha256_hexdigest s =
     concat (map hex32 (sha_blocks (be_words (pad (concat (map utf8 s)))) H0))"

section \<open>JSON (the json module)\<close>

text \<open>
  A Python value that \<^verbatim>\<open>json.dumps\<close> accepts. A dictionary has string or integer keys
  (floats, booleans and \<^verbatim>\<open>None\<close> are accepted as keys too and are written as strings
  the same way). A finite float is carried as the text \<^verbatim>\<open>repr\<close> gives for it, which
  is what \<^verbatim>\<open>json\<close> writes and reads back.
\<close>

datatype jkey = KStr string | KInt int

datatype json =
    JNull
  | JBool bool
  | JInt int
  | JFloat string
  | JString string
  | JArray "json list"
  | JObject "(jkey \<times> json) list"

text \<open>Python's truth value.\<close>

fun truthy :: "json \<Rightarrow> bool" where
  "truthy JNull = False"
| "truthy (JBool b) = b"
| "truthy (JInt i) = (i \<noteq> 0)"
| "truthy (JFloat r) = (r \<noteq> ''0.0'' \<and> r \<noteq> ''-0.0'')"
| "truthy (JString s) = (s \<noteq> [])"
| "truthy (JArray xs) = (xs \<noteq> [])"
| "truthy (JObject kvs) = (kvs \<noteq> [])"

text \<open>
  A JSON document: what the text of a \<^verbatim>\<open>.json\<close> file denotes. Its objects have string
  keys, in the order of the text, and may repeat a key. \<^verbatim>\<open>json.dumps\<close> writes the
  characters of a document and \<^verbatim>\<open>json.load\<close> reads the document back from them; the
  model keeps the document and computes its characters where they are hashed.
\<close>

datatype doc =
    DNull
  | DBool bool
  | DInt int
  | DFloat string
  | DString string
  | DArray "doc list"
  | DObject "(string \<times> doc) list"

text \<open>
  The text of a file: a JSON document written with a given \<^verbatim>\<open>indent\<close>, or text that is
  not JSON.
\<close>

datatype file_text = JsonText "nat option" doc | OtherText string

definition key_text :: "jkey \<Rightarrow> string" where
  "key_text k = (case k of KStr s \<Rightarrow> s | KInt i \<Rightarrow> str_int i)"

text \<open>
  \<^verbatim>\<open>sort_keys=True\<close> sorts the items of every dictionary by key, strings by code points
  and integers by value; comparing a string with an integer raises \<^verbatim>\<open>TypeError\<close>.
\<close>

fun str_le :: "string \<Rightarrow> string \<Rightarrow> bool" where
  "str_le [] t = True"
| "str_le (c # s) [] = False"
| "str_le (c # s) (d # t) =
     ((of_char c :: nat) < of_char d \<or> (of_char c :: nat) = of_char d \<and> str_le s t)"

fun key_le :: "jkey \<Rightarrow> jkey \<Rightarrow> bool" where
  "key_le (KStr s) (KStr t) = str_le s t"
| "key_le (KInt i) (KInt j) = (i \<le> j)"
| "key_le k l = False"

fun insert_item :: "jkey \<times> 'a \<Rightarrow> (jkey \<times> 'a) list \<Rightarrow> (jkey \<times> 'a) list" where
  "insert_item x [] = [x]"
| "insert_item x (y # ys) = (if key_le (fst x) (fst y) then x # y # ys else y # insert_item x ys)"

definition sort_items :: "(jkey \<times> 'a) list \<Rightarrow> (jkey \<times> 'a) list" where
  "sort_items kvs = foldr insert_item kvs []"

definition is_str :: "jkey \<Rightarrow> bool" where
  "is_str k = (case k of KStr s \<Rightarrow> True | KInt i \<Rightarrow> False)"

definition mixed_keys :: "jkey list \<Rightarrow> bool" where
  "mixed_keys ks = (\<not> list_all is_str ks \<and> list_ex is_str ks)"

primrec unorderable :: "json \<Rightarrow> bool" where
  "unorderable JNull = False"
| "unorderable (JBool b) = False"
| "unorderable (JInt i) = False"
| "unorderable (JFloat r) = False"
| "unorderable (JString s) = False"
| "unorderable (JArray xs) = list_ex id (map unorderable xs)"
| "unorderable (JObject kvs) =
     (mixed_keys (map fst kvs) \<or> list_ex snd (map (map_prod id unorderable) kvs))"

text \<open>The document \<^verbatim>\<open>json.dumps\<close> writes for a value, with or without sorted keys.\<close>

primrec encode :: "bool \<Rightarrow> json \<Rightarrow> doc" where
  "encode sk JNull = DNull"
| "encode sk (JBool b) = DBool b"
| "encode sk (JInt i) = DInt i"
| "encode sk (JFloat r) = DFloat r"
| "encode sk (JString s) = DString s"
| "encode sk (JArray xs) = DArray (map (encode sk) xs)"
| "encode sk (JObject kvs) =
     DObject (map (map_prod key_text id)
       ((if sk then sort_items else id) (map (map_prod id (encode sk)) kvs)))"

definition json_dumps :: "bool \<Rightarrow> nat option \<Rightarrow> json \<Rightarrow> py_error + file_text" where
  "json_dumps sort_keys indent x =
     (if sort_keys \<and> unorderable x then Inl TypeError
      else Inr (JsonText indent (encode sort_keys x)))"

text \<open>
  The value \<^verbatim>\<open>json.load\<close> returns for a document: a dictionary built from the pairs in
  order, so that a repeated key keeps its first place and its last value.
\<close>

definition dict_of :: "(jkey \<times> json) list \<Rightarrow> (jkey \<times> json) list" where
  "dict_of kvs = foldl (\<lambda>acc kv. AList.update (fst kv) (snd kv) acc) [] kvs"

primrec decode :: "doc \<Rightarrow> json" where
  "decode DNull = JNull"
| "decode (DBool b) = JBool b"
| "decode (DInt i) = JInt i"
| "decode (DFloat r) = JFloat r"
| "decode (DString s) = JString s"
| "decode (DArray xs) = JArray (map decode xs)"
| "decode (DObject kvs) = JObject (dict_of (map (map_prod KStr id) (map (map_prod id decode) kvs)))"

definition json_load :: "file_text \<Rightarrow> py_error + json" where
  "json_load t = (case t of JsonText indent d \<Rightarrow> Inr (decode d) | OtherText s \<Rightarrow> Inl JSONDecodeError)"

text \<open>
  The characters of a document. A string is written between double quotes with the
  escapes of \<^verbatim>\<open>ensure_ascii\<close>: every character outside the range from space to \<^verbatim>\<open>~\<close>,
  the double quote and the backslash are escaped.
\<close>

definition hex_byte :: "nat \<Rightarrow> string" where
  "hex_byte n = [hex_digit (int (n div 16)), hex_digit (int (n mod 16))]"

definition escape_char :: "char \<Rightarrow> string" where
  "escape_char c =
     (let n = (of_char c :: nat) in
      if n = 0x22 then [CHR 0x5C, CHR 0x22]
      else if n = 0x5C then [CHR 0x5C, CHR 0x5C]
      else if n = 0x0A then [CHR 0x5C, CHR ''n'']
      else if n = 0x0D then [CHR 0x5C, CHR ''r'']
      else if n = 0x09 then [CHR 0x5C, CHR ''t'']
      else if n = 0x08 then [CHR 0x5C, CHR ''b'']
      else if n = 0x0C then [CHR 0x5C, CHR ''f'']
      else if 0x20 \<le> n \<and> n \<le> 0x7E then [c]
      else [CHR 0x5C, CHR ''u'', CHR ''0'', CHR ''0''] @ hex_byte n)"

definition quote :: "string \<Rightarrow> string" where
  "quote s = [CHR 0x22] @ concat (map escape_char s) @ [CHR 0x22]"

definition render_item :: "string \<times> string \<Rightarrow> string" where
  "render_item kv = quote (fst kv) @ '': '' @ snd kv"

primrec render :: "doc \<Rightarrow> string" where
  "render DNull = ''null''"
| "render (DBool b) = (if b then ''true'' else ''false'')"
| "render (DInt i) = str_int i"
| "render (DFloat r) = r"
| "render (DString s) = quote s"
| "render (DArray xs) = ''['' @ py_join '', '' (map render xs) @ '']''"
| "render (DObject kvs) =
     ''{'' @ py_join '', '' (map render_item (map (map_prod id render) kvs)) @ ''}''"

fun spaces :: "nat \<Rightarrow> string" where
  "spaces n = (if n = 0 then [] else CHR '' '' # spaces (n - 1))"

declare spaces.simps [simp del]

text \<open>
  With \<^verbatim>\<open>indent=w\<close> every item of a non-empty list or dictionary is on a line of its
  own, \<open>w\<close> spaces deeper than the bracket; \<open>render_indent w d level\<close> is the text of
  \<open>d\<close> at nesting depth \<open>level\<close>.
\<close>

definition bracketed :: "nat \<Rightarrow> nat \<Rightarrow> string \<Rightarrow> string \<Rightarrow> string list \<Rightarrow> string" where
  "bracketed w level opening closing items =
     (if items = [] then opening @ closing
      else opening @ nl @ spaces (w * (level + 1))
           @ py_join ('','' @ nl @ spaces (w * (level + 1))) items
           @ nl @ spaces (w * level) @ closing)"

primrec render_indent :: "nat \<Rightarrow> doc \<Rightarrow> nat \<Rightarrow> string" where
  "render_indent w DNull level = ''null''"
| "render_indent w (DBool b) level = (if b then ''true'' else ''false'')"
| "render_indent w (DInt i) level = str_int i"
| "render_indent w (DFloat r) level = r"
| "render_indent w (DString s) level = quote s"
| "render_indent w (DArray xs) level =
     bracketed w level ''['' '']''
       (map (\<lambda>f. f (level + 1)) (map (render_indent w) xs))"
| "render_indent w (DObject kvs) level =
     bracketed w level ''{'' ''}''
       (map (\<lambda>kf. render_item (fst kf, snd kf (level + 1)))
          (map (map_prod id (render_indent w)) kvs))"

definition text_chars :: "file_text \<Rightarrow> string" where
  "text_chars t =
     (case t of
        JsonText None d \<Rightarrow> render d
      | JsonText (Some w) d \<Rightarrow> render_indent w d 0
      | OtherText s \<Rightarrow> s)"

section \<open>IPFS backups (ipfs\_storage.py)\<close>

text \<open>
  A soul passed to the backup code is a \<^verbatim>\<open>Dict[str, Any]\<close>. The world outside the
  process (the local IPFS node, the Pinata service, the HTTP gateways) is a parameter of
  the model.
\<close>

definition soul_object :: "(string \<times> json) list \<Rightarrow> json" where
  "soul_object soul_data = JObject (map (map_prod KStr id) soul_data)"

datatype ipfs_add_result = IpfsNotInstalled | IpfsAddFailed string | IpfsAdded string

record ipfs_world =
  local_add :: "string \<Rightarrow> ipfs_add_result"
  pinata_pin :: "string \<Rightarrow> string option"
  gateway_get :: "string \<Rightarrow> json option"

text \<open>\<open>cache\<close> is the directory \<^verbatim>\<open>.ipfs_cache\<close>: the text of the file \<^verbatim>\<open><cid>.json\<close>.\<close>

record IPFSStorage =
  use_local :: bool
  cache :: "string \<rightharpoonup> file_text"

record backup_record =
  br_cid :: string
  br_hash :: string
  br_timestamp :: real
  br_type :: string
  capabilities_hash :: string
  br_earnings :: json

record OnChainSoulManager =
  ipfs :: IPFSStorage
  last_backup :: real
  backup_history :: "backup_record list"
  current_cid :: "string option"

definition calculate_hash :: "file_text \<Rightarrow> string" where
  "calculate_hash content = take 46 (sha256_hexdigest (text_chars content))"

definition upload_local :: "ipfs_world \<Rightarrow> file_text \<Rightarrow> py_error + string" where
  "upload_local W content =
     (case local_add W (text_chars content) of
        IpfsAdded cid \<Rightarrow> Inr cid
      | IpfsAddFailed err \<Rightarrow> Inl (Exception (''IPFS add failed: '' @ err))
      | IpfsNotInstalled \<Rightarrow> Inr (calculate_hash content))"

definition upload_pinata :: "ipfs_world \<Rightarrow> file_text \<Rightarrow> py_error + string" where
  "upload_pinata W content =
     (case pinata_pin W (text_chars content) of
        Some cid \<Rightarrow> Inr cid
      | None \<Rightarrow> Inr (calculate_hash content))"

definition upload_to_ipfs ::
  "ipfs_world \<Rightarrow> IPFSStorage \<Rightarrow> (string \<times> json) list \<Rightarrow> bool
     \<Rightarrow> (py_error + string) \<times> IPFSStorage" where
  "upload_to_ipfs W st soul_data use_pinata =
     (case json_dumps False (Some 2) (soul_object soul_data) of
        Inl e \<Rightarrow> (Inl e, st)
      | Inr content \<Rightarrow>
          if use_local st then (upload_local W content, st)
          else if use_pinata then (upload_pinata W content, st)
          else
            (let cid = calculate_hash content
             in (Inr cid, st\<lparr>cache := (cache st)(cid \<mapsto> content)\<rparr>)))"

definition retrieve_from_ipfs ::
  "ipfs_world \<Rightarrow> IPFSStorage \<Rightarrow> string \<Rightarrow> (py_error + json option) \<times> IPFSStorage" where
  "retrieve_from_ipfs W st cid =
     (case cache st cid of
        Some content \<Rightarrow>
          (case json_load content of
             Inl e \<Rightarrow> (Inl e, st)
           | Inr data \<Rightarrow> (Inr (Some data), st))
      | None \<Rightarrow>
          (case gateway_get W cid of
             Some data \<Rightarrow>
               (case json_dumps False None data of
                  Inl e \<Rightarrow> (Inl e, st)
                | Inr content \<Rightarrow> (Inr (Some data), st\<lparr>cache := (cache st)(cid \<mapsto> content)\<rparr>))
           | None \<Rightarrow> (Inr None, st)))"

text \<open>
  \<^verbatim>\<open>hashlib.sha256(json.dumps(data, sort_keys=True).encode()).hexdigest()\<close>: the hash
  that \<^verbatim>\<open>backup_soul\<close> records and \<^verbatim>\<open>verify_content\<close> recomputes.
\<close>

definition content_hash :: "json \<Rightarrow> py_error + string" where
  "content_hash data =
     (case json_dumps True None data of
        Inl e \<Rightarrow> Inl e
      | Inr content \<Rightarrow> Inr (sha256_hexdigest (text_chars content)))"

text \<open>
  \<^verbatim>\<open>backup_soul\<close> uploads first; when the sorted serialization then raises
  \<^verbatim>\<open>TypeError\<close>, the upload has been made and no backup is recorded.
\<close>

definition backup_soul ::
  "ipfs_world \<Rightarrow> OnChainSoulManager \<Rightarrow> real \<Rightarrow> (string \<times> json) list \<Rightarrow> string
     \<Rightarrow> (py_error + string) \<times> OnChainSoulManager" where
  "backup_soul W mgr now soul_data backup_type =
     (case upload_to_ipfs W (ipfs mgr) soul_data False of
        (Inl e, st) \<Rightarrow> (Inl e, mgr\<lparr>ipfs := st\<rparr>)
      | (Inr cid, st) \<Rightarrow>
          (case content_hash (soul_object soul_data) of
             Inl e \<Rightarrow> (Inl e, mgr\<lparr>ipfs := st\<rparr>)
           | Inr soul_hash \<Rightarrow>
               (case json_dumps False None
                       (case map_of soul_data ''capabilities'' of
                          None \<Rightarrow> JArray [] | Some c \<Rightarrow> c) of
                  Inl e \<Rightarrow> (Inl e, mgr\<lparr>ipfs := st\<rparr>)
                | Inr caps \<Rightarrow>
                    (let backup =
                           \<lparr>br_cid = cid, br_hash = soul_hash, br_timestamp = now,
                            br_type = backup_type,
                            capabilities_hash = take 16 (sha256_hexdigest (text_chars caps)),
                            br_earnings =
                              (case map_of soul_data ''total_lifetime_earnings'' of
                                 None \<Rightarrow> JInt 0 | Some e \<Rightarrow> e)\<rparr>
                     in (Inr cid,
                         mgr\<lparr>ipfs := st, backup_history := backup_history mgr @ [backup],
                              current_cid := Some cid, last_backup := now\<rparr>)))))"

definition restore_from_backup ::
  "ipfs_world \<Rightarrow> OnChainSoulManager \<Rightarrow> string option
     \<Rightarrow> (py_error + json option) \<times> OnChainSoulManager" where
  "restore_from_backup W mgr cid_arg =
     (if cid_arg = None \<and> backup_history mgr = [] then (Inr None, mgr)
      else
        (let cid = (case cid_arg of
                      None \<Rightarrow> br_cid (last (backup_history mgr)) | Some c \<Rightarrow> c)
         in case retrieve_from_ipfs W (ipfs mgr) cid of
              (Inl e, st) \<Rightarrow> (Inl e, mgr\<lparr>ipfs := st\<rparr>)
            | (Inr None, st) \<Rightarrow> (Inr None, mgr\<lparr>ipfs := st\<rparr>)
            | (Inr (Some data), st) \<Rightarrow>
                (if truthy data then (Inr (Some data), mgr\<lparr>ipfs := st\<rparr>)
                 else (Inr None, mgr\<lparr>ipfs := st\<rparr>))))"


section \<open>Concrete states\<close>

text \<open>
  States on which the theorems below are instantiated: a fresh network (no state files),
  a profile with the fields the coordination code reads, the network of the loan
  scenarios (agent A of reputation 15, agent B of reputation 50, a pool of 0.1 created
  by B), a guardrail object with one blocked recipient, and a reputation engine holding
  the metrics the module's demo records for its first agent.
\<close>

definition empty_network :: AgentCoordinationNetwork where
  "empty_network = \<lparr>agents = [], messages = [], pools = Map.empty\<rparr>"

definition mk_agent :: "string \<Rightarrow> string \<Rightarrow> real \<Rightarrow> real \<Rightarrow> bool \<Rightarrow> bool \<Rightarrow> AgentProfile" where
  "mk_agent aid t bal rep offers seeking =
     \<lparr>agent_id = aid, soul_cid = [], profile_capabilities = [], tier = t, balance = bal,
      reputation = rep, last_seen = 0, is_active = True, offers_help = offers,
      seeking_help = seeking\<rparr>"

definition loan_network :: AgentCoordinationNetwork where
  "loan_network =
     snd (create_resource_pool
       (snd (register_agent
         (snd (register_agent empty_network 0 (mk_agent ''A'' ''LOW'' 0.005 15 False False)))
         0 (mk_agent ''B'' ''NORMAL'' 0.05 50 True False)))
       0 ''fund'' ''Emergency Fund'' ''B'' 0.1)"

text \<open>One needy agent and two eligible helpers of reputations 40 and 70.\<close>

definition aid_network :: AgentCoordinationNetwork where
  "aid_network =
     snd (register_agent
       (snd (register_agent
         (snd (register_agent empty_network 0 (mk_agent ''N'' ''CRITICAL'' 0.0005 30 False True)))
         0 (mk_agent ''H40'' ''NORMAL'' 0.05 40 True False)))
       0 (mk_agent ''H70'' ''THRIVING'' 0.5 70 True False))"

definition ex_guard :: SpendingGuardrails where
  "ex_guard =
     \<lparr>cls = SpendingGuardrails_consts,
      config = \<lparr>daily_limit = Some 5, weekly_limit = Some 20,
                blocked_recipients = Some [''mallory'']\<rparr>,
      history = \<lparr>transactions = [], daily_total = Some 1, weekly_total = Some 1,
                 last_reset = Some 0\<rparr>,
      emergency_stop = False\<rparr>"

definition ex_engine :: ReputationEngine where
  "ex_engine =
     \<lparr>reputations = Map.empty,
      performance = [''agent_alpha'' \<mapsto>
        \<lparr>pm_agent_id = ''agent_alpha'', tasks_completed = 2, tasks_failed = 0,
         total_earnings = 0.08, total_spent = 0, avg_task_value = 0, uptime_hours = 100,
         backups_created = 1, souls_traded = 1, clones_created = 1,
         children_survived = 1\<rparr>]\<rparr>"

text \<open>
  The manager with the default configuration, the sample that draws the first \<open>k\<close>
  capabilities, and a parent soul with the four capabilities of the module's demo (in
  another order) and a given balance.
\<close>

definition ex_manager :: AutoScalingManager where
  "ex_manager =
     \<lparr>mgr_parent_id = ''parent_agent'', children = [],
      scaling = \<lparr>auto_spawn = Some True, max_children = 10, inheritance_mode = ''best''\<rparr>\<rparr>"

definition first_k :: "capability list \<Rightarrow> nat \<Rightarrow> capability list" where
  "first_k cs k = take k cs"

definition ex_parent :: "real \<Rightarrow> soul" where
  "ex_parent b =
     \<lparr>current_balance = Some b,
      capabilities = Some
        [\<lparr>cap_name = ''testing'', cap_earnings = Some 0.05\<rparr>,
         \<lparr>cap_name = ''coding'', cap_earnings = Some 0.5\<rparr>,
         \<lparr>cap_name = ''design'', cap_earnings = Some 0.1\<rparr>,
         \<lparr>cap_name = ''debugging'', cap_earnings = Some 0.3\<rparr>],
      purpose = Some ''Build autonomous agent systems''\<rparr>"




definition mixed_soul :: "(string \<times> json) list" where
  "mixed_soul = [(''m'', JObject [(KInt 1, JString ''a''), (KStr ''k'', JString ''b'')])]"





definition offline :: ipfs_world where
  "offline =
     \<lparr>local_add = (\<lambda>content. IpfsNotInstalled), pinata_pin = (\<lambda>content. None),
      gateway_get = (\<lambda>cid. None)\<rparr>"

definition fresh_manager :: OnChainSoulManager where
  "fresh_manager =
     \<lparr>ipfs = \<lparr>use_local = False, cache = Map.empty\<rparr>, last_backup = 0,
      backup_history = [], current_cid = None\<rparr>"

section \<open>Tier classification\<close>

text \<open>
  C3. Both \<^verbatim>\<open>get_tier\<close> methods are total functions of the balance that return one of
  the four tier names, and each name is returned exactly on its half-open interval:
  CRITICAL below 0.001, LOW on [0.001, 0.01), NORMAL on [0.01, 0.1), THRIVING from 0.1 on.
  The thresholds are inclusive lower bounds, so a balance equal to a threshold is in the
  higher tier.
\<close>

theorem get_tier_classification:
  fixes s :: soul
  defines "t \<equiv> OpenClawSoulSurvival_get_tier s" and "b \<equiv> get_balance s"
  shows "t = EnhancedSoulSurvival_get_tier s
     \<and> t \<in> {''CRITICAL'', ''LOW'', ''NORMAL'', ''THRIVING''}
     \<and> (t = ''CRITICAL'') = (b < 0.001)
     \<and> (t = ''LOW'') = (0.001 \<le> b \<and> b < 0.01)
     \<and> (t = ''NORMAL'') = (0.01 \<le> b \<and> b < 0.1)
     \<and> (t = ''THRIVING'') = (0.1 \<le> b)"
  unfolding t_def b_def OpenClawSoulSurvival_get_tier_def EnhancedSoulSurvival_get_tier_def
    CRITICAL_def LOW_def NORMAL_def Let_def
  by (simp add: get_balance_def)

section \<open>Reputation scores\<close>

lemma py_round_bounds:
  assumes "0 \<le> x" and "x \<le> 100"
  shows "0 \<le> py_round x 2 \<and> py_round x 2 \<le> 100"
proof -
  define y where "y = x * 10 ^ 2"
  define f where "f = \<lfloor>y\<rfloor>"
  have y: "0 \<le> y" "y \<le> 10000" using assms by (simp_all add: y_def)
  have f0: "0 \<le> f" using y by (simp add: f_def)
  have f1: "f \<le> 10000" using y by (simp add: f_def floor_le_iff)
  have up: "f + 1 \<le> 10000" if "of_int f < y"
  proof -
    have "of_int f < (10000::real)" using that y by linarith
    then have "f < 10000" by linarith
    then show ?thesis by simp
  qed
  have lo: "0 \<le> (of_int f :: real)" "0 \<le> (of_int (f + 1) :: real)" using f0 by simp_all
  have hi: "(of_int f :: real) \<le> 10000" using f1 by linarith
  have hi': "(of_int (f + 1) :: real) \<le> 10000" if "of_int f < y"
    using up[OF that] by linarith
  show ?thesis
    unfolding py_round_def Let_def y_def[symmetric] f_def[symmetric]
    using lo hi hi' by (auto simp add: field_simps)
qed

lemma reliability_bounds:
  fixes c f :: int
  assumes "0 \<le> c" and "0 \<le> f"
  shows "0 \<le> (if c + f > 0 then real_of_int c / real_of_int (c + f) * 100 else 50)
    \<and> (if c + f > 0 then real_of_int c / real_of_int (c + f) * 100 else 50) \<le> (100::real)"
proof (cases "c + f > 0")
  case True
  define q where "q = real_of_int c / real_of_int (c + f)"
  have "q \<le> 1" using assms True by (simp add: q_def divide_le_eq_1)
  moreover have "0 \<le> q" using assms True by (simp add: q_def)
  ultimately have "0 \<le> q * 100 \<and> q * 100 \<le> 100" by simp
  then show ?thesis using True by (simp only: q_def if_True)
next
  case False
  then show ?thesis by simp
qed

lemma overall_bounds:
  fixes r q h l :: real
  assumes "0 \<le> r" "r \<le> 100" "0 \<le> q" "q \<le> 100" "0 \<le> h" "h \<le> 100" "0 \<le> l" "l \<le> 100"
  shows "0 \<le> r * 0.3 + q * 0.25 + 95 * 0.2 + h * 0.15 + l * 0.1
     \<and> r * 0.3 + q * 0.25 + 95 * 0.2 + h * 0.15 + l * 0.1 \<le> 100"
  using assms by simp

text \<open>
  C7. For an agent whose metrics have non-negative counters (or who has no metrics yet),
  \<^verbatim>\<open>calculate_reputation\<close> leaves the metrics as they are, a second call on the state
  the first one leaves returns the same reliability, quality, honesty, helpfulness,
  longevity and overall scores, and the overall score lies in [0, 100].
\<close>

theorem calculate_reputation_idempotent_bounded:
  fixes eng :: ReputationEngine and a :: string and t1 t2 :: real
  assumes "case performance eng a of None \<Rightarrow> True | Some p \<Rightarrow> metrics_nonneg p"
  defines "first \<equiv> calculate_reputation eng a t1"
  defines "second \<equiv> calculate_reputation (snd first) a t2"
  shows "performance (snd first) = performance eng
     \<and> scores (fst second) = scores (fst first)
     \<and> 0 \<le> overall_score (fst first) \<and> overall_score (fst first) \<le> 100"
proof -
  define p where "p = (case performance eng a of None \<Rightarrow> default_metrics a | Some p \<Rightarrow> p)"
  have nn: "metrics_nonneg p"
    using assms(1)
    by (auto simp add: p_def metrics_nonneg_def default_metrics_def split: option.splits)
  have perf: "performance (snd first) = performance eng"
    by (simp add: first_def calculate_reputation_def Let_def)
  have same: "scores (fst second) = scores (fst first)"
    by (simp add: second_def first_def calculate_reputation_def Let_def scores_def)
  define r where "r = (if tasks_completed p + tasks_failed p > 0
      then real_of_int (tasks_completed p) / real_of_int (tasks_completed p + tasks_failed p) * 100
      else 50)"
  define q where "q = min 100 ((total_earnings p / 0.1) * 100)"
  define h where "h = real_of_int (min 100 (clones_created p * 10 + children_survived p * 5))"
  define l where "l = min 100 (uptime_hours p / 10)"
  have rb: "0 \<le> r \<and> r \<le> 100"
    unfolding r_def using nn by (intro reliability_bounds) (simp_all add: metrics_nonneg_def)
  have qb: "0 \<le> q \<and> q \<le> 100" using nn by (simp add: q_def metrics_nonneg_def)
  have hb: "0 \<le> h \<and> h \<le> 100" using nn by (simp add: h_def metrics_nonneg_def)
  have lb: "0 \<le> l \<and> l \<le> 100" using nn by (simp add: l_def metrics_nonneg_def)
  have ob: "0 \<le> r * 0.3 + q * 0.25 + 95 * 0.2 + h * 0.15 + l * 0.1
     \<and> r * 0.3 + q * 0.25 + 95 * 0.2 + h * 0.15 + l * 0.1 \<le> 100"
    using rb qb hb lb by (intro overall_bounds) simp_all
  have ov: "overall_score (fst first) =
      py_round (r * 0.3 + q * 0.25 + 95 * 0.2 + h * 0.15 + l * 0.1) 2"
    by (simp add: first_def calculate_reputation_def Let_def p_def r_def q_def h_def l_def)
  show ?thesis
    using perf same ob py_round_bounds[of "r * 0.3 + q * 0.25 + 95 * 0.2 + h * 0.15 + l * 0.1"]
    by (simp only: ov)
qed

theorem calculate_reputation_idempotent_bounded_witness:
  "(case performance ex_engine ''agent_alpha'' of None \<Rightarrow> True | Some p \<Rightarrow> metrics_nonneg p)
   \<and> scores (fst (calculate_reputation (snd (calculate_reputation ex_engine ''agent_alpha'' 1))
        ''agent_alpha'' 2))
     = scores (fst (calculate_reputation ex_engine ''agent_alpha'' 1))
   \<and> 0 \<le> overall_score (fst (calculate_reputation ex_engine ''agent_alpha'' 1))
   \<and> overall_score (fst (calculate_reputation ex_engine ''agent_alpha'' 1)) \<le> 100"
proof -
  have h: "case performance ex_engine ''agent_alpha'' of None \<Rightarrow> True | Some p \<Rightarrow> metrics_nonneg p"
    by (simp add: ex_engine_def metrics_nonneg_def)
  show ?thesis
    using h calculate_reputation_idempotent_bounded[OF h, of 1 2] by simp
qed

section \<open>Spending guardrails\<close>

lemma reset_if_needed_keeps:
  "cls (reset_if_needed g now) = cls g"
  "config (reset_if_needed g now) = config g"
  "emergency_stop (reset_if_needed g now) = emergency_stop g"
  "get_daily_limit (reset_if_needed g now) = get_daily_limit g"
  by (simp_all add: reset_if_needed_def Let_def get_daily_limit_def split: option.splits)

text \<open>
  C4, as stated, fails: a micro-payment to a blocked recipient is refused although the
  emergency stop is off and the daily limit is not exceeded.
\<close>

theorem micro_payment_blocked_recipient:
  "(0.005::real) < MICRO_PAYMENT_MAX (cls ex_guard)
   \<and> \<not> emergency_stop ex_guard
   \<and> \<not> get_daily_total ex_guard + 0.005 > get_daily_limit ex_guard
   \<and> \<not> allowed (fst (can_spend ex_guard 100 0.005 (Some ''mallory'') ''tip''))"
  by (simp add: ex_guard_def can_spend_def Let_def reset_if_needed_def get_daily_limit_def
      get_daily_total_def get_last_reset_def recipient_blocked_def SpendingGuardrails_consts_def)

text \<open>
  C4, amended. For an amount below \<^verbatim>\<open>MICRO_PAYMENT_MAX\<close>, \<^verbatim>\<open>can_spend\<close> allows the
  payment exactly when the emergency stop is off, the daily total (after the lazy reset
  of this call) plus the amount does not exceed the daily limit, and the recipient is not
  a non-empty name on the block list; an allowed payment needs no approval and a refused
  one does.
\<close>

theorem micro_payment_decision:
  fixes g :: SpendingGuardrails and now amt :: real and rcp :: "string option" and purp :: string
  assumes "amt < MICRO_PAYMENT_MAX (cls g)"
  defines "d \<equiv> fst (can_spend g now amt rcp purp)"
  shows "allowed d =
           (\<not> emergency_stop g
            \<and> \<not> get_daily_total (reset_if_needed g now) + amt > get_daily_limit g
            \<and> \<not> recipient_blocked (config g) rcp)
       \<and> requires_approval d = (\<not> allowed d)"
  using assms(1)
  by (simp add: d_def can_spend_def Let_def reset_if_needed_keeps)

theorem micro_payment_decision_witness:
  "(0.005::real) < MICRO_PAYMENT_MAX (cls ex_guard)
   \<and> allowed (fst (can_spend ex_guard 100 0.005 (Some ''bob'') ''tip''))
   \<and> \<not> requires_approval (fst (can_spend ex_guard 100 0.005 (Some ''bob'') ''tip''))"
  using micro_payment_decision[of "0.005" ex_guard 100 "Some ''bob''" "''tip''"]
  by (simp add: ex_guard_def reset_if_needed_def get_daily_limit_def
      get_daily_total_def get_last_reset_def recipient_blocked_def SpendingGuardrails_consts_def)

text \<open>
  C5, as stated, fails twice. Exactly 24 hours after the last reset \<^verbatim>\<open>can_spend\<close>
  keeps the daily total, and \<^verbatim>\<open>record_spending\<close>, called more than two days after
  the last reset, adds to the old daily total and keeps \<open>last_reset\<close>.
\<close>

theorem lazy_reset_counterexample:
  "86400 \<le> (86400::real) - get_last_reset ex_guard
   \<and> daily_total (history (snd (can_spend ex_guard 86400 0.005 None ''tip''))) = Some 1
   \<and> 86400 \<le> (200000::real) - get_last_reset ex_guard
   \<and> daily_total (history (fst (record_spending ex_guard 200000 0.5 ''bob'' ''tip'' None)))
       = Some 1.5
   \<and> last_reset (history (fst (record_spending ex_guard 200000 0.5 ''bob'' ''tip'' None)))
       = Some 0"
  by (simp add: ex_guard_def can_spend_def Let_def reset_if_needed_def get_daily_limit_def
      get_daily_total_def get_last_reset_def record_spending_def)

text \<open>
  C5, amended. When more than 86400 seconds have passed since the recorded
  \<open>last_reset\<close> (0 when none is recorded), \<^verbatim>\<open>can_spend\<close> sets the daily total to 0 and
  \<open>last_reset\<close> to the current time and decides on that state; otherwise it leaves the
  state as it is. \<^verbatim>\<open>record_spending\<close> never resets: it keeps \<open>last_reset\<close> and adds
  the amount to the daily total.
\<close>

theorem lazy_daily_reset:
  fixes g :: SpendingGuardrails and now amt :: real and rcp :: "string option"
    and r purp :: string and txh :: "string option"
  defines "g_reset \<equiv> g\<lparr>history := (history g)\<lparr>daily_total := Some 0, last_reset := Some now\<rparr>\<rparr>"
  shows "can_spend g now amt rcp purp =
           (if 86400 < now - get_last_reset g
            then (fst (can_spend g_reset now amt rcp purp), g_reset)
            else (fst (can_spend g now amt rcp purp), g))
       \<and> last_reset (history (fst (record_spending g now amt r purp txh))) = last_reset (history g)
       \<and> daily_total (history (fst (record_spending g now amt r purp txh)))
           = map_option (\<lambda>d. d + amt) (daily_total (history g))"
  by (auto simp add: g_reset_def can_spend_def Let_def reset_if_needed_def get_daily_limit_def
      get_daily_total_def get_last_reset_def record_spending_def split: option.splits)

theorem lazy_daily_reset_witness:
  "86400 < (90000::real) - get_last_reset ex_guard
   \<and> history (snd (can_spend ex_guard 90000 0.005 None ''tip''))
       = (history ex_guard)\<lparr>daily_total := Some 0, last_reset := Some 90000\<rparr>
   \<and> snd (can_spend ex_guard 100 0.005 None ''tip'') = ex_guard"
proof -
  have late: "86400 < (90000::real) - get_last_reset ex_guard"
    and early: "\<not> 86400 < (100::real) - get_last_reset ex_guard"
    by (simp_all add: ex_guard_def get_last_reset_def)
  have "snd (can_spend ex_guard 90000 0.005 None ''tip'')
      = ex_guard\<lparr>history := (history ex_guard)\<lparr>daily_total := Some 0, last_reset := Some 90000\<rparr>\<rparr>"
    using late
      lazy_daily_reset[where g = ex_guard and now = 90000 and amt = "0.005" and rcp = None
        and purp = "''tip''" and r = "[]" and txh = None, THEN conjunct1]
    by (metis snd_conv)
  moreover have "snd (can_spend ex_guard 100 0.005 None ''tip'') = ex_guard"
    using early
      lazy_daily_reset[where g = ex_guard and now = 100 and amt = "0.005" and rcp = None
        and purp = "''tip''" and r = "[]" and txh = None, THEN conjunct1]
    by (metis snd_conv)
  ultimately show ?thesis using late by simp
qed

section \<open>Resource pools and loans\<close>

lemma apply_pool_call_solvent:
  "pool_solvent pid net \<Longrightarrow> nonneg_contribution c \<Longrightarrow> pool_solvent pid (apply_pool_call net c)"
  by (cases c)
    (auto simp add: pool_solvent_def contribute_to_pool_def request_loan_def Let_def
      split: option.splits)

lemma run_pool_calls_solvent:
  "pool_solvent pid net \<Longrightarrow> \<forall>c\<in>set cs. nonneg_contribution c
     \<Longrightarrow> pool_solvent pid (run_pool_calls net cs)"
  unfolding run_pool_calls_def
  by (induction cs arbitrary: net) (auto simp add: apply_pool_call_solvent)

lemma loan_granted_within_balance:
  "fst (request_loan n t p a amt purp) = Some loan
     \<Longrightarrow> \<exists>pool. pools n p = Some pool \<and> amt \<le> total_balance pool"
  by (auto simp add: request_loan_def Let_def split: option.splits if_splits)

text \<open>
  C1. After \<^verbatim>\<open>create_resource_pool\<close> with a non-negative initial contribution, every
  prefix of every sequence of \<^verbatim>\<open>contribute_to_pool\<close> calls with non-negative amounts
  and \<^verbatim>\<open>request_loan\<close> calls (on this pool or on any other) leaves the pool in the
  network with a non-negative balance; and in any state, a loan is granted only from an
  existing pool whose balance at that moment is at least the amount asked for.
\<close>

theorem pool_solvency:
  fixes net :: AgentCoordinationNetwork and now initial :: real and pid nm creator :: string
    and cs :: "pool_call list"
  assumes "0 \<le> initial" and "\<forall>c\<in>set cs. nonneg_contribution c"
  defines "net1 \<equiv> snd (create_resource_pool net now pid nm creator initial)"
  shows "(\<forall>k. \<exists>pool. pools (run_pool_calls net1 (take k cs)) pid = Some pool
              \<and> 0 \<le> total_balance pool)
       \<and> (\<forall>n t p a amt purp loan. fst (request_loan n t p a amt purp) = Some loan
              \<longrightarrow> (\<exists>pool. pools n p = Some pool \<and> amt \<le> total_balance pool))"
proof -
  have start: "pool_solvent pid net1"
    using assms(1) by (simp add: net1_def create_resource_pool_def pool_solvent_def Let_def)
  have "\<exists>pool. pools (run_pool_calls net1 (take k cs)) pid = Some pool
      \<and> 0 \<le> total_balance pool" for k
  proof -
    have "\<forall>c\<in>set (take k cs). nonneg_contribution c"
      using assms(2) by (meson in_set_takeD)
    with start have "pool_solvent pid (run_pool_calls net1 (take k cs))"
      by (rule run_pool_calls_solvent)
    then show ?thesis
      by (auto simp add: pool_solvent_def split: option.splits)
  qed
  then show ?thesis
    using loan_granted_within_balance by blast
qed

theorem pool_solvency_witness:
  "(0::real) \<le> 0.1
   \<and> nonneg_contribution (Contribute ''fund'' ''A'' 0.05)
   \<and> nonneg_contribution (RequestLoan 7 ''fund'' ''B'' 0.12 ''survival'')
   \<and> nonneg_contribution (RequestLoan 8 ''fund'' ''B'' 0.1 ''survival'')
   \<and> (\<exists>pool. pools (run_pool_calls
          (snd (create_resource_pool empty_network 0 ''fund'' ''Emergency Fund'' ''B'' 0.1))
          [Contribute ''fund'' ''A'' 0.05, RequestLoan 7 ''fund'' ''B'' 0.12 ''survival'',
           RequestLoan 8 ''fund'' ''B'' 0.1 ''survival'']) ''fund'' = Some pool
        \<and> 0 \<le> total_balance pool)"
proof -
  let ?cs = "[Contribute ''fund'' ''A'' 0.05, RequestLoan 7 ''fund'' ''B'' 0.12 ''survival'',
     RequestLoan 8 ''fund'' ''B'' 0.1 ''survival'']"
  have h1: "(0::real) \<le> 0.1" by simp
  have h2: "\<forall>c\<in>set ?cs. nonneg_contribution c" by simp
  have "\<exists>pool. pools (run_pool_calls
          (snd (create_resource_pool empty_network 0 ''fund'' ''Emergency Fund'' ''B'' 0.1))
          (take 3 ?cs)) ''fund'' = Some pool \<and> 0 \<le> total_balance pool"
    using pool_solvency[OF h1 h2, of empty_network 0 "''fund''" "''Emergency Fund''" "''B''"]
    by blast
  then show ?thesis by simp
qed

text \<open>
  C2. A registered agent whose reputation is below 20 is refused a loan from an existing
  pool whatever the amount and the balance of the pool, and the refusal returns the
  network as it was: the balance, the contributors and the loans of the pool (and
  everything else) are unchanged.
\<close>

theorem request_loan_low_reputation_denied:
  assumes "pools net pid = Some pool" and "map_of (agents net) aid = Some a"
    and "reputation a < 20"
  shows "request_loan net now pid aid amt purp = (None, net)"
  using assms by (simp add: request_loan_def)

lemma loan_network_facts:
  "pools loan_network ''fund'' =
     Some \<lparr>pool_id = ''fund'', pool_name = ''Emergency Fund'', total_balance = 0.1,
           contributors = [''B'' \<mapsto> 0.1], loans = [], created_at = 0\<rparr>"
  "map_of (agents loan_network) ''A'' = Some (mk_agent ''A'' ''LOW'' 0.005 15 False False)"
  "map_of (agents loan_network) ''B'' = Some (mk_agent ''B'' ''NORMAL'' 0.05 50 True False)"
  "map_of (agents loan_network) ''C'' = None"
  by (simp_all add: loan_network_def create_resource_pool_def register_agent_def
      empty_network_def mk_agent_def Let_def)

theorem request_loan_low_reputation_denied_witness:
  "reputation (mk_agent ''A'' ''LOW'' 0.005 15 False False) < 20
   \<and> request_loan loan_network 5 ''fund'' ''A'' 0.05 ''survival'' = (None, loan_network)
   \<and> (\<exists>pool. pools loan_network ''fund'' = Some pool \<and> total_balance pool = 0.1)"
proof -
  have r: "reputation (mk_agent ''A'' ''LOW'' 0.005 15 False False) < 20"
    by (simp add: mk_agent_def)
  show ?thesis
    using r request_loan_low_reputation_denied[OF loan_network_facts(1) loan_network_facts(2) r,
        of 5 "0.05" "''survival''"]
    by (simp add: loan_network_facts)
qed

text \<open>
  C10. For an agent id that is not registered, \<^verbatim>\<open>request_loan\<close> on an existing pool
  makes no reputation check: the loan is refused exactly when the balance of the pool is
  below the amount, and otherwise it is granted, recorded unrepaid in the pool, and the
  balance is reduced by the amount.
\<close>

theorem request_loan_unregistered:
  assumes "pools net pid = Some pool" and "map_of (agents net) aid = None"
  shows "(fst (request_loan net now pid aid amt purp) = None) = (total_balance pool < amt)
     \<and> (amt \<le> total_balance pool \<longrightarrow>
          (\<exists>loan. request_loan net now pid aid amt purp =
             (Some loan, net\<lparr>pools := (pools net)(pid \<mapsto>
                pool\<lparr>loans := loans pool @ [loan],
                     total_balance := total_balance pool - amt\<rparr>)\<rparr>)
            \<and> loan_agent_id loan = aid \<and> loan_amount loan = amt \<and> loan_purpose loan = purp
            \<and> \<not> repaid loan))"
  using assms by (auto simp add: request_loan_def Let_def)

theorem request_loan_unregistered_witness:
  "map_of (agents loan_network) ''C'' = None
   \<and> (\<exists>loan pool. fst (request_loan loan_network 5 ''fund'' ''C'' 0.05 ''survival'') = Some loan
        \<and> pools (snd (request_loan loan_network 5 ''fund'' ''C'' 0.05 ''survival'')) ''fund''
            = Some pool
        \<and> total_balance pool = 0.05 \<and> loans pool = [loan] \<and> \<not> repaid loan)"
proof -
  let ?pool = "\<lparr>pool_id = ''fund'', pool_name = ''Emergency Fund'',
      total_balance = 0.1, contributors = [''B'' \<mapsto> 0.1], loans = [], created_at = 0\<rparr>"
  have le: "(0.05::real) \<le> total_balance ?pool"
    by simp
  obtain loan where
    "request_loan loan_network 5 ''fund'' ''C'' 0.05 ''survival'' =
       (Some loan, loan_network\<lparr>pools := (pools loan_network)(''fund'' \<mapsto>
          ?pool\<lparr>loans := loans ?pool @ [loan],
                 total_balance := total_balance ?pool - 0.05\<rparr>)\<rparr>)"
    and "\<not> repaid loan"
    using le request_loan_unregistered[OF loan_network_facts(1) loan_network_facts(4),
        of 5 "0.05" "''survival''"]
    by blast
  then show ?thesis
    by (simp add: loan_network_facts)
qed

section \<open>Mutual aid\<close>

lemma py_max_key_dominant: "\<forall>x\<in>set ys. f x \<le> f b \<Longrightarrow> py_max_key f b ys = b"
  by (induction ys arbitrary: b) auto

lemma py_max_key_later:
  "f b < f h \<Longrightarrow> \<forall>x\<in>set pre. f x < f h \<Longrightarrow> \<forall>x\<in>set post. f x \<le> f h
     \<Longrightarrow> py_max_key f b (pre @ h # post) = h"
  by (induction pre arbitrary: b) (auto simp add: py_max_key_dominant)

lemma py_max_key_split:
  assumes "b # ys = pre @ h # post" and "\<forall>x\<in>set pre. f x < f h" and "\<forall>x\<in>set post. f x \<le> f h"
  shows "py_max_key f b ys = h"
proof (cases pre)
  case Nil
  with assms show ?thesis by (simp add: py_max_key_dominant)
next
  case (Cons p pre')
  with assms have "b = p" "ys = pre' @ h # post" by simp_all
  with assms Cons show ?thesis by (simp add: py_max_key_later)
qed

lemma py_max_key_is_first_max:
  "\<exists>pre post. b # ys = pre @ py_max_key f b ys # post
     \<and> (\<forall>x\<in>set pre. f x < f (py_max_key f b ys))
     \<and> (\<forall>x\<in>set post. f x \<le> f (py_max_key f b ys))"
proof (induction ys arbitrary: b)
  case Nil
  show ?case by (rule exI[of _ "[]"], rule exI[of _ "[]"]) simp
next
  case (Cons y ys)
  define b' where "b' = (if f b < f y then y else b)"
  define h where "h = py_max_key f b' ys"
  have step: "py_max_key f b (y # ys) = h"
    by (simp add: h_def b'_def)
  from Cons.IH[of b'] obtain pre post where
    sp: "b' # ys = pre @ h # post" and lt: "\<forall>x\<in>set pre. f x < f h"
    and le: "\<forall>x\<in>set post. f x \<le> f h"
    unfolding h_def by blast
  have hd_le: "f b' \<le> f h"
  proof (cases pre)
    case Nil
    with sp show ?thesis by simp
  next
    case (Cons p pre')
    with sp have "p = b'" by simp
    with lt Cons show ?thesis by auto
  qed
  have "\<exists>pre post. b # y # ys = pre @ h # post
     \<and> (\<forall>x\<in>set pre. f x < f h) \<and> (\<forall>x\<in>set post. f x \<le> f h)"
  proof (cases "f b < f y")
    case True
    then have b': "b' = y" by (simp add: b'_def)
    have "b # y # ys = (b # pre) @ h # post" using sp b' by simp
    moreover have "\<forall>x\<in>set (b # pre). f x < f h" using lt hd_le True b' by auto
    ultimately show ?thesis using le by blast
  next
    case False
    then have b': "b' = b" by (simp add: b'_def)
    show ?thesis
    proof (cases pre)
      case Nil
      with sp b' have hb: "h = b" "post = ys" by simp_all
      have "b # y # ys = [] @ h # (y # ys)" using hb by simp
      moreover have "\<forall>x\<in>set (y # ys). f x \<le> f h" using le hb False by auto
      moreover have "\<forall>x\<in>set []. f x < f h" by simp
      ultimately show ?thesis by blast
    next
      case (Cons p pre')
      with sp b' have p: "p = b" "ys = pre' @ h # post" by simp_all
      have "f b < f h" using lt Cons p by auto
      then have "\<forall>x\<in>set (b # y # pre'). f x < f h" using lt Cons False by auto
      moreover have "b # y # ys = (b # y # pre') @ h # post" using p by simp
      ultimately show ?thesis using le by blast
    qed
  qed
  then show ?case by (simp only: step)
qed

lemma py_last_append: "py_last n (py_last n xs @ ys) = py_last n (xs @ ys)"
proof (cases "length xs \<le> n")
  case True
  then show ?thesis by (simp add: py_last_def)
next
  case False
  then have "length xs + length ys - (length xs - n + n) + (length xs - n)
      = length xs + length ys - n"
    by simp
  then show ?thesis using False by (simp add: py_last_def)
qed

lemma raise_absent: "kh \<notin> fst ` set ags \<Longrightarrow> map (raise kh r) ags = ags"
  by (induction ags) (auto simp add: raise_def)

lemma map_of_raise:
  "map_of (map (raise kh r) ags) k =
     map_option (\<lambda>a. if k = kh then a\<lparr>reputation := r\<rparr> else a) (map_of ags k)"
  by (induction ags) (auto simp add: raise_def)

lemma update_raise:
  "distinct (map fst ags) \<Longrightarrow> map_of ags kh = Some h
     \<Longrightarrow> AList.update kh (h\<lparr>reputation := r'\<rparr>) (map (raise kh r) ags) = map (raise kh r') ags"
proof (induction ags)
  case Nil
  then show ?case by simp
next
  case (Cons e ags)
  show ?case
  proof (cases "fst e = kh")
    case True
    with Cons.prems have "snd e = h" "kh \<notin> fst ` set ags" by auto
    with True show ?thesis
      by (cases e) (simp add: raise_def raise_absent[unfolded raise_def])
  next
    case False
    with Cons show ?thesis by (cases e) (simp add: raise_def)
  qed
qed

lemma deref_raise:
  assumes "distinct (map fst ags)" and "set sub \<subseteq> set ags"
  shows "concat (map (deref \<lparr>agents = map (raise kh r) ags, messages = ms, pools = ps\<rparr>) (map fst sub))
    = map (snd \<circ> raise kh r) sub"
  using assms(2)
proof (induction sub)
  case Nil
  then show ?case by simp
next
  case (Cons e sub)
  then have "e \<in> set ags" by simp
  then have "map_of ags (fst e) = Some (snd e)"
    using assms(1) by (metis map_of_eq_Some_iff prod.collapse)
  then have "deref \<lparr>agents = map (raise kh r) ags, messages = ms, pools = ps\<rparr> (fst e)
      = [snd (raise kh r e)]"
    by (simp add: deref_def map_of_raise raise_def)
  with Cons show ?case by simp
qed

lemma case_py_max_key:
  assumes "xs = pre @ h # post" and "\<forall>x\<in>set pre. f x < f h" and "\<forall>x\<in>set post. f x \<le> f h"
  shows "(case xs of [] \<Rightarrow> A | b # ys \<Rightarrow> F (py_max_key f b ys)) = F h"
proof (cases xs)
  case Nil
  with assms(1) show ?thesis by simp
next
  case (Cons b ys)
  with assms have "py_max_key f b ys = h" by (intro py_max_key_split[of b ys pre h post]) simp_all
  with Cons show ?thesis by simp
qed

lemma offer_help_raise:
  assumes "distinct (map fst ags)" and "map_of ags kh = Some h"
  shows "snd (offer_help \<lparr>agents = map (raise kh r) ags, messages = ms, pools = ps\<rparr> now kh nid
            ''funding'' \<lparr>offer_amount = 0.01, offer_message = ''Mutual aid funding''\<rparr>)
    = \<lparr>agents = map (raise kh (min 100 (r + 1))) ags,
       messages = py_last 1000 (ms @ [mutual_aid_offer now kh nid]), pools = ps\<rparr>"
proof -
  have m: "map_of (map (raise kh r) ags) kh = Some (h\<lparr>reputation := r\<rparr>)"
    using assms(2) by (simp add: map_of_raise)
  have u: "AList.update kh (h\<lparr>reputation := min 100 (r + 1)\<rparr>) (map (raise kh r) ags)
      = map (raise kh (min 100 (r + 1))) ags"
    using assms by (rule update_raise)
  show ?thesis
    using m u
    by (simp add: offer_help_def send_message_def Let_def mutual_aid_offer_def py_last_def)
qed

lemma available_helpers_raise:
  assumes d: "distinct (map fst ags)"
    and els: "filter (\<lambda>e. balance (snd e) > 0.01) (helper_entries ags) = epre @ (kh, h) # epost"
  shows "filter (\<lambda>h. balance h > 0.01)
           (concat (map (deref \<lparr>agents = map (raise kh r) ags, messages = ms, pools = ps\<rparr>)
              (map fst (helper_entries ags))))
         = map snd epre @ h\<lparr>reputation := r\<rparr> # map snd epost"
proof -
  have sub: "set (helper_entries ags) \<subseteq> set ags"
    by (simp add: helper_entries_def)
  have "distinct (map fst (helper_entries ags))"
    using d by (simp add: helper_entries_def distinct_map_filter)
  then have "distinct (map fst (epre @ (kh, h) # epost))"
    using els by (metis distinct_map_filter)
  then have out: "kh \<notin> fst ` set epre" "kh \<notin> fst ` set epost"
    by auto
  have bal: "(\<lambda>h. balance h > 0.01) \<circ> (snd \<circ> raise kh r) = (\<lambda>e. balance (snd e) > 0.01)"
    by (auto simp add: raise_def fun_eq_iff)
  have "filter (\<lambda>h. balance h > 0.01)
           (concat (map (deref \<lparr>agents = map (raise kh r) ags, messages = ms, pools = ps\<rparr>)
              (map fst (helper_entries ags))))
      = filter (\<lambda>h. balance h > 0.01) (map (snd \<circ> raise kh r) (helper_entries ags))"
    using deref_raise[OF d sub] by simp
  also have "\<dots> = map (snd \<circ> raise kh r) (epre @ (kh, h) # epost)"
    by (simp only: filter_map bal els)
  also have "\<dots> = map snd (map (raise kh r) epre) @ snd (raise kh r (kh, h))
      # map snd (map (raise kh r) epost)"
    by simp
  also have "\<dots> = map snd epre @ h\<lparr>reputation := r\<rparr> # map snd epost"
    using out by (simp add: raise_absent) (simp add: raise_def)
  finally show ?thesis .
qed

lemma mutual_aid_loop_step:
  assumes d: "distinct (map fst ags)"
    and els: "filter (\<lambda>e. balance (snd e) > 0.01) (helper_entries ags) = epre @ (kh, h) # epost"
    and id: "agent_id h = kh"
    and lt: "\<forall>e\<in>set epre. reputation (snd e) < reputation h"
    and le: "\<forall>e\<in>set epost. reputation (snd e) \<le> reputation h"
    and r: "reputation h \<le> r"
  shows "mutual_aid_loop now (map fst (helper_entries ags)) (n # ns)
           \<lparr>agents = map (raise kh r) ags, messages = ms, pools = ps\<rparr> m
       = mutual_aid_loop now (map fst (helper_entries ags)) ns
           \<lparr>agents = map (raise kh (min 100 (r + 1))) ags,
            messages = py_last 1000 (ms @ [mutual_aid_offer now kh (agent_id n)]), pools = ps\<rparr>
           (m + 1)"
proof -
  have "(kh, h) \<in> set (filter (\<lambda>e. balance (snd e) > 0.01) (helper_entries ags))"
    using els by simp
  then have "(kh, h) \<in> set ags"
    by (simp add: helper_entries_def)
  then have mo: "map_of ags kh = Some h"
    using d by (simp add: map_of_eq_Some_iff)
  let ?h = "h\<lparr>reputation := r\<rparr>"
  have av: "filter (\<lambda>h. balance h > 0.01)
           (concat (map (deref \<lparr>agents = map (raise kh r) ags, messages = ms, pools = ps\<rparr>)
              (map fst (helper_entries ags))))
         = map snd epre @ ?h # map snd epost"
    using d els by (rule available_helpers_raise)
  have b1: "\<forall>x\<in>set (map snd epre). reputation x < reputation ?h"
    using lt r by auto
  have b2: "\<forall>x\<in>set (map snd epost). reputation x \<le> reputation ?h"
    using le r by auto
  have idr: "agent_id ?h = kh" using id by simp
  show ?thesis
    unfolding mutual_aid_loop.simps Let_def
    by (subst case_py_max_key[OF av b1 b2]) (simp only: idr offer_help_raise[OF d mo])
qed

lemma mutual_aid_loop_same_helper:
  assumes d: "distinct (map fst ags)"
    and els: "filter (\<lambda>e. balance (snd e) > 0.01) (helper_entries ags) = epre @ (kh, h) # epost"
    and id: "agent_id h = kh"
    and lt: "\<forall>e\<in>set epre. reputation (snd e) < reputation h"
    and le: "\<forall>e\<in>set epost. reputation (snd e) \<le> reputation h"
  shows "reputation h \<le> r \<Longrightarrow> r \<le> 100 \<Longrightarrow>
     \<exists>r'. mutual_aid_loop now (map fst (helper_entries ags)) ns
           \<lparr>agents = map (raise kh r) ags, messages = ms, pools = ps\<rparr> m
       = (m + length ns,
          \<lparr>agents = map (raise kh r') ags,
           messages = fold (\<lambda>n ms. py_last 1000 (ms @ [mutual_aid_offer now kh (agent_id n)])) ns ms,
           pools = ps\<rparr>)"
proof (induction ns arbitrary: r ms m)
  case Nil
  show ?case by (rule exI[of _ r]) simp
next
  case (Cons n ns)
  have r': "reputation h \<le> min 100 (r + 1)" "min 100 (r + 1) \<le> 100"
    using Cons.prems by simp_all
  show ?case
    using Cons.IH[OF r', of "py_last 1000 (ms @ [mutual_aid_offer now kh (agent_id n)])" "m + 1"]
    by (simp only: mutual_aid_loop_step[OF d els id lt le Cons.prems(1)]) simp
qed

lemma fold_send:
  "ns \<noteq> [] \<Longrightarrow> fold (\<lambda>n ms. py_last 1000 (ms @ [g n])) ns ms = py_last 1000 (ms @ map g ns)"
proof (induction ns arbitrary: ms)
  case Nil
  then show ?case by simp
next
  case (Cons n ns)
  show ?case
  proof (cases "ns = []")
    case True
    then show ?thesis by simp
  next
    case False
    then show ?thesis
      using Cons.IH[of "py_last 1000 (ms @ [g n])"] py_last_append[of 1000 "ms @ [g n]" "map g ns"]
      by simp
  qed
qed

lemma deref_plain:
  assumes "distinct (map fst (agents net))" and "set sub \<subseteq> set (agents net)"
  shows "concat (map (deref net) (map fst sub)) = map snd sub"
  using assms(2)
proof (induction sub)
  case Nil
  then show ?case by simp
next
  case (Cons e sub)
  then have "e \<in> set (agents net)" by simp
  then have "map_of (agents net) (fst e) = Some (snd e)"
    using assms(1) by (metis map_of_eq_Some_iff prod.collapse)
  then have "deref net (fst e) = [snd e]"
    by (simp add: deref_def)
  with Cons show ?case by simp
qed

lemma eligible_helpers_entries:
  "eligible_helpers net
     = map snd (filter (\<lambda>e. balance (snd e) > 0.01) (helper_entries (agents net)))"
  by (simp add: eligible_helpers_def helper_entries_def filter_map comp_def case_prod_beta
      conj_commute conj_left_commute)

lemma available_helpers_plain:
  assumes "distinct (map fst (agents net))"
  shows "filter (\<lambda>h. balance h > 0.01)
           (concat (map (deref net) (map fst (helper_entries (agents net)))))
         = eligible_helpers net"
proof -
  have "set (helper_entries (agents net)) \<subseteq> set (agents net)"
    by (simp add: helper_entries_def)
  then show ?thesis
    using deref_plain[OF assms]
    by (simp add: eligible_helpers_entries filter_map comp_def)
qed

lemma mutual_aid_loop_no_helper:
  assumes "distinct (map fst (agents net))" and "eligible_helpers net = []"
  shows "mutual_aid_loop now (map fst (helper_entries (agents net))) ns net m = (m, net)"
  by (induction ns)
    (simp_all only: mutual_aid_loop.simps available_helpers_plain[OF assms(1)] assms(2) list.case)

lemma raise_same:
  "distinct (map fst ags) \<Longrightarrow> (kh, h) \<in> set ags \<Longrightarrow> map (raise kh (reputation h)) ags = ags"
proof (induction ags)
  case Nil
  then show ?case by simp
next
  case (Cons e ags)
  show ?case
  proof (cases "fst e = kh")
    case True
    with Cons.prems have "e = (kh, h)" "kh \<notin> fst ` set ags"
      by (auto simp add: rev_image_eqI)
    then show ?thesis by (simp add: raise_def raise_absent[unfolded raise_def])
  next
    case False
    with Cons show ?thesis by (auto simp add: raise_def)
  qed
qed

text \<open>
  C6. In a well-formed registry, one \<^verbatim>\<open>run_mutual_aid_round\<close> makes no match when no
  helper is eligible or nobody is needy. Otherwise it matches every active CRITICAL agent
  that seeks help to one and the same helper: the first eligible helper, in registration
  order, among those of the highest reputation. It returns the number of needy agents,
  and it logs one offer message from that helper to each needy agent, in order (the
  message log keeps its last 1000 entries).
\<close>

theorem mutual_aid_round_matches:
  fixes net :: AgentCoordinationNetwork and now :: real
  assumes ok: "registry_ok net"
  defines "needy \<equiv> find_agents_needing_help net"
    and "el \<equiv> eligible_helpers net"
  shows "(el = [] \<or> needy = [] \<longrightarrow> run_mutual_aid_round net now = (0, net))
     \<and> (el \<noteq> [] \<longrightarrow>
          (\<exists>pre h post. el = pre @ h # post
             \<and> (\<forall>x\<in>set pre. reputation x < reputation h)
             \<and> (\<forall>x\<in>set post. reputation x \<le> reputation h)
             \<and> fst (run_mutual_aid_round net now) = length needy
             \<and> (needy \<noteq> [] \<longrightarrow>
                  messages (snd (run_mutual_aid_round net now))
                    = py_last 1000 (messages net
                        @ map (\<lambda>n. mutual_aid_offer now (agent_id h) (agent_id n)) needy))))"
proof -
  have d: "distinct (map fst (agents net))"
    using ok by (simp add: registry_ok_def)
  have run: "run_mutual_aid_round net now
      = mutual_aid_loop now (map fst (helper_entries (agents net))) needy net 0"
    by (simp add: run_mutual_aid_round_def needy_def helper_entries_def Let_def)
  have empty: "run_mutual_aid_round net now = (0, net)" if "el = [] \<or> needy = []"
  proof (cases "needy = []")
    case True
    then show ?thesis by (simp add: run)
  next
    case False
    with that have "eligible_helpers net = []" by (simp add: el_def)
    then show ?thesis
      using mutual_aid_loop_no_helper[OF d] by (simp add: run)
  qed
  have match: "\<exists>pre h post. el = pre @ h # post
             \<and> (\<forall>x\<in>set pre. reputation x < reputation h)
             \<and> (\<forall>x\<in>set post. reputation x \<le> reputation h)
             \<and> fst (run_mutual_aid_round net now) = length needy
             \<and> (needy \<noteq> [] \<longrightarrow>
                  messages (snd (run_mutual_aid_round net now))
                    = py_last 1000 (messages net
                        @ map (\<lambda>n. mutual_aid_offer now (agent_id h) (agent_id n)) needy))"
    if ne: "el \<noteq> []"
  proof -
    from ne obtain b ys where el_eq: "el = b # ys" by (cases el) auto
    define h where "h = py_max_key reputation b ys"
    obtain pre post where sp: "el = pre @ h # post"
      and lt: "\<forall>x\<in>set pre. reputation x < reputation h"
      and le: "\<forall>x\<in>set post. reputation x \<le> reputation h"
      using py_max_key_is_first_max[of b ys reputation] unfolding h_def el_eq by blast
    let ?els = "filter (\<lambda>e. balance (snd e) > 0.01) (helper_entries (agents net))"
    have "map snd ?els = pre @ h # post"
      using sp by (simp add: el_def eligible_helpers_entries)
    then obtain epre e epost where els: "?els = epre @ e # epost"
      and pre: "map snd epre = pre" and e: "snd e = h" and post: "map snd epost = post"
      by (auto simp add: map_eq_append_conv map_eq_Cons_conv)
    define kh where "kh = fst e"
    have e_eq: "e = (kh, h)" using e by (simp add: kh_def prod_eq_iff)
    have "e \<in> set ?els" using els by simp
    then have mem: "(kh, h) \<in> set (agents net)"
      by (simp add: helper_entries_def e_eq)
    have id: "agent_id h = kh" and r100: "reputation h \<le> 100"
      using ok mem by (auto simp add: registry_ok_def)
    have els': "?els = epre @ (kh, h) # epost" using els e_eq by simp
    have lt': "\<forall>e\<in>set epre. reputation (snd e) < reputation h"
      using lt pre by force
    have le': "\<forall>e\<in>set epost. reputation (snd e) \<le> reputation h"
      using le post by force
    have net_eq: "net = \<lparr>agents = map (raise kh (reputation h)) (agents net),
        messages = messages net, pools = pools net\<rparr>"
      by (simp add: raise_same[OF d mem])
    obtain r' where loop: "mutual_aid_loop now (map fst (helper_entries (agents net))) needy
           \<lparr>agents = map (raise kh (reputation h)) (agents net), messages = messages net,
            pools = pools net\<rparr> 0
       = (0 + length needy,
          \<lparr>agents = map (raise kh r') (agents net),
           messages = fold (\<lambda>n ms. py_last 1000 (ms @ [mutual_aid_offer now kh (agent_id n)]))
             needy (messages net),
           pools = pools net\<rparr>)"
      using mutual_aid_loop_same_helper[OF d els' id lt' le' order_refl r100] by blast
    have res: "run_mutual_aid_round net now = (length needy,
          \<lparr>agents = map (raise kh r') (agents net),
           messages = fold (\<lambda>n ms. py_last 1000 (ms @ [mutual_aid_offer now kh (agent_id n)]))
             needy (messages net),
           pools = pools net\<rparr>)"
      using loop net_eq run by simp
    have "fst (run_mutual_aid_round net now) = length needy"
      by (simp add: res)
    moreover have "messages (snd (run_mutual_aid_round net now))
        = py_last 1000 (messages net
            @ map (\<lambda>n. mutual_aid_offer now (agent_id h) (agent_id n)) needy)"
      if "needy \<noteq> []"
      using fold_send[OF that, of "\<lambda>n. mutual_aid_offer now kh (agent_id n)" "messages net"]
      by (simp add: res id)
    ultimately show ?thesis using sp lt le by blast
  qed
  show ?thesis using empty match by blast
qed

lemma aid_network_facts:
  "registry_ok aid_network"
  "eligible_helpers aid_network
     = [mk_agent ''H40'' ''NORMAL'' 0.05 40 True False, mk_agent ''H70'' ''THRIVING'' 0.5 70 True False]"
  "find_agents_needing_help aid_network = [mk_agent ''N'' ''CRITICAL'' 0.0005 30 False True]"
  "messages aid_network = []"
  by (simp_all add: aid_network_def register_agent_def empty_network_def mk_agent_def
      registry_ok_def eligible_helpers_def find_agents_needing_help_def)

theorem mutual_aid_round_matches_witness:
  "registry_ok aid_network
   \<and> map reputation (eligible_helpers aid_network) = [40, 70]
   \<and> length (find_agents_needing_help aid_network) = 1
   \<and> fst (run_mutual_aid_round aid_network 5) = 1
   \<and> map (\<lambda>m. (msg_sender m, msg_recipient m, msg_type m))
        (messages (snd (run_mutual_aid_round aid_network 5))) = [(''H70'', ''N'', ''offer'')]"
proof -
  let ?h40 = "mk_agent ''H40'' ''NORMAL'' 0.05 40 True False"
  let ?h70 = "mk_agent ''H70'' ''THRIVING'' 0.5 70 True False"
  let ?n = "mk_agent ''N'' ''CRITICAL'' 0.0005 30 False True"
  obtain pre h post where sp: "[?h40, ?h70] = pre @ h # post"
    and lt: "\<forall>x\<in>set pre. reputation x < reputation h"
    and le: "\<forall>x\<in>set post. reputation x \<le> reputation h"
    and cnt: "fst (run_mutual_aid_round aid_network 5) = length [?n]"
    and msgs: "messages (snd (run_mutual_aid_round aid_network 5))
        = py_last 1000 ([] @ map (\<lambda>n. mutual_aid_offer 5 (agent_id h) (agent_id n)) [?n])"
    using mutual_aid_round_matches[OF aid_network_facts(1), of 5]
    unfolding aid_network_facts by auto
  have "h = ?h70"
  proof (cases pre)
    case Nil
    with sp have "h = ?h40" "post = [?h70]" by simp_all
    with le show ?thesis by (simp add: mk_agent_def)
  next
    case (Cons p pre')
    with sp show ?thesis by (cases pre') simp_all
  qed
  then show ?thesis
    using cnt msgs
    by (simp add: aid_network_facts py_last_def mutual_aid_offer_def) (simp add: mk_agent_def)
qed

section \<open>Spawning a child\<close>

text \<open>
  C8. \<^verbatim>\<open>spawn_child(parent, funding)\<close> is to fail exactly when
  \<open>parent.balance - funding < MIN_PARENT_RESERVE\<close> and otherwise to debit the parent by
  exactly \<open>funding\<close>. At a funding of zero the code does neither: it replaces the 0 by
  \<^verbatim>\<open>CHILD_FUNDING\<close>, so a parent with balance 0.25, which keeps its reserve after
  funding 0, gets no child, and a parent with balance 1.5 gets a child but is debited 0.1.
\<close>

theorem spawn_child_zero_funding:
  "\<not> ((0.25::real) - 0 < MIN_PARENT_RESERVE)
   \<and> current_balance (ex_parent 0.25) = Some 0.25
   \<and> fst (spawn_child ex_manager first_k 1000 (ex_parent 0.25) (Some 0)) = Inr None
   \<and> fst (spawn_child ex_manager first_k 1000 (ex_parent 1.5) (Some 0)) \<noteq> Inr None
   \<and> current_balance (snd (snd (spawn_child ex_manager first_k 1000 (ex_parent 1.5) (Some 0))))
       = Some 1.4"
  by (simp add: spawn_child_def effective_funding_def MIN_PARENT_RESERVE_def CHILD_FUNDING_def
      ex_parent_def Let_def)

text \<open>
  For a funding that is given and not zero, and a parent soul that records a balance
  \<open>b\<close>, the reserve rule holds as it is written: no child exactly when
  \<open>b - funding < MIN_PARENT_RESERVE\<close>, and then nothing changes; otherwise a gestating
  child with that funding and the selected capabilities is recorded and returned, and
  the parent is debited by exactly the funding.
\<close>

lemma spawn_child_given_funding:
  fixes m :: AutoScalingManager and ps :: soul and now b f :: real
    and sample :: "capability list \<Rightarrow> nat \<Rightarrow> capability list"
  assumes "current_balance ps = Some b" and "f \<noteq> 0"
  defines "res \<equiv> spawn_child m sample now ps (Some f)"
  shows "(fst res = Inr None) = (b - f < MIN_PARENT_RESERVE)
     \<and> (b - f < MIN_PARENT_RESERVE \<longrightarrow> res = (Inr None, m, ps))
     \<and> (\<not> b - f < MIN_PARENT_RESERVE \<longrightarrow>
          (\<exists>child. res = (Inr (Some child),
                          m\<lparr>children := AList.update (child_id child) child (children m)\<rparr>,
                          ps\<lparr>current_balance := Some (b - f)\<rparr>)
             \<and> status child = ''gestating''
             \<and> initial_funding child = f
             \<and> parent_id child = mgr_parent_id m
             \<and> inherited_capabilities child =
                 select_inherited_capabilities m sample
                   (case capabilities ps of None \<Rightarrow> [] | Some cs \<Rightarrow> cs)))"
  using assms(1,2) by (simp add: res_def effective_funding_def spawn_child_def Let_def)

lemma spawn_child_given_funding_example:
  "(\<exists>child. fst (spawn_child ex_manager first_k 1000 (ex_parent 1.5) (Some 0.3)) = Inr (Some child)
        \<and> status child = ''gestating'' \<and> initial_funding child = 0.3
        \<and> inherited_capabilities child = [''coding'', ''debugging'', ''design''])
   \<and> current_balance (snd (snd (spawn_child ex_manager first_k 1000 (ex_parent 1.5) (Some 0.3))))
       = Some 1.2
   \<and> spawn_child ex_manager first_k 1000 (ex_parent 1.5) (Some 1.4)
       = (Inr None, ex_manager, ex_parent 1.5)"
proof -
  have bal: "current_balance (ex_parent 1.5) = Some 1.5"
    by (simp add: ex_parent_def)
  have ok: "\<not> (1.5::real) - 0.3 < MIN_PARENT_RESERVE"
    and no: "(1.5::real) - 1.4 < MIN_PARENT_RESERVE"
    by (simp_all add: MIN_PARENT_RESERVE_def)
  have sel: "select_inherited_capabilities ex_manager first_k
      (case capabilities (ex_parent 1.5) of None \<Rightarrow> [] | Some cs \<Rightarrow> cs)
      = [''coding'', ''debugging'', ''design'']"
    by (simp add: select_inherited_capabilities_def ex_manager_def ex_parent_def get_earnings_def)
  show ?thesis
    using ok no sel
      spawn_child_given_funding[OF bal, of "0.3" ex_manager first_k 1000]
      spawn_child_given_funding[OF bal, of "1.4" ex_manager first_k 1000]
    by auto
qed

section \<open>Backup and restore\<close>






text \<open>
  In simulation mode (no local node) \<^verbatim>\<open>backup_soul\<close> returns the first 46 digits of
  the digest of the indented text, files that text in the cache under it, and records
  the digest of the sorted serialization; \<^verbatim>\<open>restore_from_backup\<close> decodes the cached
  document and returns it when it is true in Python.
\<close>

lemma backup_soul_simulated:
  fixes W :: ipfs_world and mgr :: OnChainSoulManager and now :: real
    and d :: "(string \<times> json) list" and btype :: string
  assumes sim: "\<not> use_local (ipfs mgr)" and ord: "\<not> unorderable (soul_object d)"
  defines "content \<equiv> JsonText (Some 2) (encode False (soul_object d))"
  defines "b \<equiv> backup_soul W mgr now d btype"
  shows "fst b = Inr (calculate_hash content)"
    and "cache (ipfs (snd b)) (calculate_hash content) = Some content"
    and "backup_history (snd b) \<noteq> []"
    and "br_cid (last (backup_history (snd b))) = calculate_hash content"
    and "content_hash (soul_object d) = Inr (br_hash (last (backup_history (snd b))))"
    and "br_hash (last (backup_history (snd b)))
           = sha256_hexdigest (text_chars (JsonText None (encode True (soul_object d))))"
  using sim ord
  by (simp_all add: b_def content_def backup_soul_def upload_to_ipfs_def content_hash_def
      json_dumps_def Let_def)

lemma restore_cached:
  assumes "cache (ipfs mgr) cid = Some (JsonText indent doc)"
  shows "fst (restore_from_backup W mgr (Some cid))
           = Inr (if truthy (decode doc) then Some (decode doc) else None)"
    and "backup_history mgr \<noteq> [] \<Longrightarrow> br_cid (last (backup_history mgr)) = cid \<Longrightarrow>
         fst (restore_from_backup W mgr None)
           = Inr (if truthy (decode doc) then Some (decode doc) else None)"
  using assms
  by (simp_all add: restore_from_backup_def retrieve_from_ipfs_def json_load_def)





lemmas sha256_eval =
  sha256_hexdigest_def utf8_def hex32_def hex_digit_def pad_def be_bytes8_def compress_def
  sha_round_def shift_state_def temp1_def temp2_def schedule_def extend.simps zeros.simps
  add32_def rotr_def shr_def not32_def Ch_def Maj_def Sigma0_def Sigma1_def sigma0_def sigma1_def
  K256_def H0_def

lemma sha256_empty_object:
  "sha256_hexdigest ''{}'' = ''44136fa355b3678a1146ad16f7e8649e94fb4fc21fe77e8310c060f61caaff8a''"
  by (simp add: sha256_eval)








text \<open>
  Two more souls that do not make the round trip. The empty soul is read back as
  \<^verbatim>\<open>{}\<close>, which \<^verbatim>\<open>restore_from_backup\<close> tests with \<^verbatim>\<open>if data\<close> and reports as not
  retrievable. For a dictionary with a string key and an integer key the sorted
  serialization raises \<^verbatim>\<open>TypeError\<close>: the text has been cached and no backup is
  recorded.
\<close>

lemma empty_soul_backup_not_restored:
  assumes sim: "\<not> use_local (ipfs mgr)"
  shows "fst (restore_from_backup W (snd (backup_soul W mgr now [] btype)) None) = Inr None"
proof -
  have ord: "\<not> unorderable (soul_object [])"
    by (simp add: soul_object_def mixed_keys_def)
  note f = backup_soul_simulated[OF sim ord, of W now btype]
  have c: "cache (ipfs (snd (backup_soul W mgr now [] btype)))
      (calculate_hash (JsonText (Some 2) (encode False (soul_object []))))
      = Some (JsonText (Some 2) (DObject []))"
    using f(2) by (simp add: soul_object_def)
  show ?thesis
    using restore_cached(2)[OF c f(3) f(4), of W] by (simp add: dict_of_def)
qed

lemma mixed_keys_backup_raises:
  "fst (backup_soul offline fresh_manager 1000 mixed_soul ''manual'') = Inl TypeError
   \<and> backup_history (snd (backup_soul offline fresh_manager 1000 mixed_soul ''manual'')) = []
   \<and> cache (ipfs (snd (backup_soul offline fresh_manager 1000 mixed_soul ''manual'')))
        (calculate_hash (JsonText (Some 2) (encode False (soul_object mixed_soul)))) \<noteq> None"
  by (simp add: backup_soul_def upload_to_ipfs_def content_hash_def json_dumps_def Let_def
      fresh_manager_def mixed_soul_def soul_object_def mixed_keys_def is_str_def)

end
